theory Spec2Isabelle
  imports Main "HOL-Library.Multiset"
begin

section \<open>JavaScript values and strings\<close>

text \<open>
  The server is a Node.js program. Strings are lists of code units (all literals of the
  program are below 256, so \<open>char\<close> suffices), numbers that the pipeline handles are
  integers (byte sizes, millisecond clocks), and \<open>undefined\<close> is \<open>None\<close> of an option.
  A parsed JSON message is a \<open>jsval\<close>; an object is the association list of its keys.
\<close>

datatype jsval =
    JNull
  | JBool bool
  | JNum int
  | JStr string
  | JArr "jsval list"
  | JObj "(string \<times> jsval) list"

text \<open>Property read \<open>v.k\<close> on a value that is neither \<open>null\<close> nor \<open>undefined\<close>.\<close>

fun get_prop :: "jsval \<Rightarrow> string \<Rightarrow> jsval option" where
  "get_prop (JObj kvs) k = map_of kvs k"
| "get_prop _ k = None"

text \<open>JavaScript truthiness, as tested by \<open>!x\<close>, \<open>x || y\<close> and \<open>x && y\<close>.\<close>

fun truthy :: "jsval option \<Rightarrow> bool" where
  "truthy None = False"
| "truthy (Some JNull) = False"
| "truthy (Some (JBool b)) = b"
| "truthy (Some (JNum n)) = (n \<noteq> 0)"
| "truthy (Some (JStr s)) = (s \<noteq> [])"
| "truthy (Some (JArr xs)) = True"
| "truthy (Some (JObj kvs)) = True"

text \<open>\<open>x || y\<close> where \<open>y\<close> is defined.\<close>

definition js_or :: "jsval option \<Rightarrow> jsval \<Rightarrow> jsval" where
  "js_or x y = (case x of None \<Rightarrow> y | Some v \<Rightarrow> if truthy (Some v) then v else y)"

text \<open>Destructuring default \<open>{ k = d }\<close>: the default applies to \<open>undefined\<close> only.\<close>

definition with_default :: "jsval option \<Rightarrow> jsval \<Rightarrow> jsval" where
  "with_default x d = (case x of None \<Rightarrow> d | Some v \<Rightarrow> v)"

text \<open>Decimal rendering of a non-negative integer, as \<open>String(n)\<close> gives it.\<close>

definition digit_char :: "nat \<Rightarrow> char" where
  "digit_char k = ''0123456789'' ! k"

fun digits :: "nat \<Rightarrow> string" where
  "digits n = (if n < 10 then [digit_char n] else digits (n div 10) @ [digit_char (n mod 10)])"

declare digits.simps [simp del]

definition show_int :: "int \<Rightarrow> string" where
  "show_int i = (if i < 0 then CHR ''-'' # digits (nat (- i)) else digits (nat i))"

fun join_comma :: "string list \<Rightarrow> string" where
  "join_comma [] = []"
| "join_comma [s] = s"
| "join_comma (s # t # ss) = s @ '','' @ join_comma (t # ss)"

text \<open>
  \<open>String(v)\<close>, which a template literal \<open>`${v}`\<close> applies; inside an array \<open>null\<close>
  is rendered as the empty string. A number of the model is an integer of magnitude below
  \<open>10^21\<close>, the range in which \<open>String\<close> prints every digit; fractions and larger
  magnitudes, which JavaScript prints in shortest round-trip or exponent form, are outside
  the model.
\<close>

fun to_string :: "jsval \<Rightarrow> string" where
  "to_string JNull = ''null''"
| "to_string (JBool b) = (if b then ''true'' else ''false'')"
| "to_string (JNum n) = show_int n"
| "to_string (JStr s) = s"
| "to_string (JArr xs) = join_comma (map (\<lambda>x. if x = JNull then [] else to_string x) xs)"
| "to_string (JObj kvs) = ''[object Object]''"

definition to_string_opt :: "jsval option \<Rightarrow> string" where
  "to_string_opt x = (case x of None \<Rightarrow> ''undefined'' | Some v \<Rightarrow> to_string v)"

text \<open>\<open>String.prototype.trim\<close>: the white space of the first 256 code units.\<close>

definition is_space :: "char \<Rightarrow> bool" where
  "is_space c = (of_char c \<in> {9, 10, 11, 12, 13, 32, 160 :: nat})"

definition trim :: "string \<Rightarrow> string" where
  "trim s = rev (dropWhile is_space (rev (dropWhile is_space s)))"

text \<open>\<open>s.endsWith(suf)\<close>.\<close>

definition endsWith :: "string \<Rightarrow> string \<Rightarrow> bool" where
  "endsWith s suf = (length suf \<le> length s \<and> drop (length s - length suf) s = suf)"


section \<open>Storage: names and validation\<close>

text \<open>
  The download route tests the requested name with
  \<^verbatim>\<open>filename.match(/^[a-zA-Z0-9_-]+\.(mp3|wav)$/)\<close>.
  The class excludes the dot, so the greedy run of class characters ends exactly at the
  first character outside the class; without the \<open>m\<close> flag \<open>$\<close> is the end of input.
\<close>

definition is_name_char :: "char \<Rightarrow> bool" where
  "is_name_char c =
     (let n = of_char c :: nat
      in (97 \<le> n \<and> n \<le> 122) \<or> (65 \<le> n \<and> n \<le> 90) \<or> (48 \<le> n \<and> n \<le> 57)
         \<or> c = CHR ''_'' \<or> c = CHR ''-'')"

definition matches_audio_name :: "string \<Rightarrow> bool" where
  "matches_audio_name filename =
     (let stem = takeWhile is_name_char filename;
          rest = dropWhile is_name_char filename
      in stem \<noteq> [] \<and> (rest = ''.mp3'' \<or> rest = ''.wav''))"

text \<open>The language of the regular expression, written out.\<close>

definition in_audio_name_language :: "string \<Rightarrow> bool" where
  "in_audio_name_language s =
     (\<exists>stem ext. s = stem @ ''.'' @ ext \<and> stem \<noteq> [] \<and> (\<forall>c \<in> set stem. is_name_char c)
        \<and> (ext = ''mp3'' \<or> ext = ''wav''))"

text \<open>\<open>s.includes(sub)\<close>.\<close>

fun str_includes :: "string \<Rightarrow> string \<Rightarrow> bool" where
  "str_includes [] sub = (sub = [])"
| "str_includes (c # cs) sub = (take (length sub) (c # cs) = sub \<or> str_includes cs sub)"

text \<open>
  Canonical names. Both ingress handlers read \<open>Date.now()\<close> and \<open>uuidv4()\<close> once and
  build the name with a template literal:
  \<^verbatim>\<open>`audio_${timestamp}_${uniqueId}.mp3`\<close> (streaming),
  \<^verbatim>\<open>`uploaded_${timestamp}_${uniqueId}.mp3`\<close> (upload) and, for the staged
  streaming payload, \<^verbatim>\<open>`temp_${timestamp}_${uniqueId}.wav`\<close>.
  \<open>Date.now()\<close> is the number of milliseconds since the epoch.
\<close>

datatype origin = Streaming | Upload

definition name_prefix :: "origin \<Rightarrow> string" where
  "name_prefix og = (case og of Streaming \<Rightarrow> ''audio_'' | Upload \<Rightarrow> ''uploaded_'')"

definition mp3Filename :: "origin \<Rightarrow> nat \<Rightarrow> string \<Rightarrow> string" where
  "mp3Filename og timestamp uniqueId =
     name_prefix og @ digits timestamp @ ''_'' @ uniqueId @ ''.mp3''"

definition tempFilename :: "nat \<Rightarrow> string \<Rightarrow> string" where
  "tempFilename timestamp uniqueId = ''temp_'' @ digits timestamp @ ''_'' @ uniqueId @ ''.wav''"


section \<open>Filesystem, connection and external services\<close>

text \<open>
  The server keeps two directories beside its source: \<open>audio\<close> (\<open>audioDir\<close>, the
  persistent one) and \<open>uploads\<close> (where multer stores an uploaded body). A directory
  is the list of its entries in \<open>readdir\<close> order; a path is \<open>path.join(dir, name)\<close>.
\<close>

datatype dirname = AudioDir | UploadsDir

datatype path = Path dirname string

record stats =
  st_size :: nat
  st_birthtime :: nat
  st_mtime :: nat

type_synonym directory = "(string \<times> stats) list"

type_synonym filesystem = "dirname \<Rightarrow> directory"

definition existsSync :: "filesystem \<Rightarrow> path \<Rightarrow> bool" where
  "existsSync fs p = (case p of Path d n \<Rightarrow> map_of (fs d) n \<noteq> None)"

definition statSync :: "filesystem \<Rightarrow> path \<Rightarrow> stats option" where
  "statSync fs p = (case p of Path d n \<Rightarrow> map_of (fs d) n)"

definition readdirSync :: "filesystem \<Rightarrow> dirname \<Rightarrow> string list" where
  "readdirSync fs d = map fst (fs d)"

text \<open>Creating a file appends an entry; overwriting one keeps its birth time.\<close>

definition write_file :: "filesystem \<Rightarrow> path \<Rightarrow> stats \<Rightarrow> filesystem" where
  "write_file fs p st =
     (case p of Path d n \<Rightarrow>
        fs(d := (if map_of (fs d) n = None then fs d @ [(n, st)]
                 else map (\<lambda>(k, v). if k = n then (k, st\<lparr>st_birthtime := st_birthtime v\<rparr>)
                                      else (k, v)) (fs d))))"

definition remove_file :: "filesystem \<Rightarrow> path \<Rightarrow> filesystem" where
  "remove_file fs p = (case p of Path d n \<Rightarrow> fs(d := filter (\<lambda>(k, v). k \<noteq> n) (fs d)))"

text \<open>
  What a handler does to the world: the files, the filesystem calls it made (in order),
  the messages it sent on the connection, the prompts it posted to the generation
  service, and the timers it waited for.
\<close>

datatype fs_op =
    ExistsSync path
  | StatSync path
  | ReaddirSync dirname
  | WriteFile path
  | Unlink path
  | CreateReadStream path
  | Ffmpeg path path

record world =
  files :: filesystem
  fs_log :: "fs_op list"
  sent :: "jsval list"
  posted :: "string list"
  timers :: "nat list"

definition log_fs :: "fs_op \<Rightarrow> world \<Rightarrow> world" where
  "log_fs opn w = w\<lparr>fs_log := fs_log w @ [opn]\<rparr>"

definition ws_send :: "jsval \<Rightarrow> world \<Rightarrow> world" where
  "ws_send m w = w\<lparr>sent := sent w @ [m]\<rparr>"

text \<open>
  What the handler cannot decide: the clock, the generated token, the random draw, the
  length of the decoded payload, whether a write or an unlink fails, what the conversion
  engine does, and what the generation service answers. A failed conversion may leave a
  partial output behind.
\<close>

datatype conversion = Converted stats | ConversionError string "stats option"

record env =
  date_now :: nat
  uuidv4 :: string
  random_index :: nat
  iso_clock :: "nat \<Rightarrow> string"
  fs_clock :: nat
  buffer_length :: "string \<Rightarrow> nat"
  writeFile_error :: "string option"
  ffmpeg_run :: conversion
  unlink_error :: "string option"
  axios_post :: "string \<Rightarrow> string + jsval"
  axios_get :: "string + jsval"

text \<open>\<open>JSON.stringify\<close> of an object literal leaves out the \<open>undefined\<close> fields.\<close>

fun obj :: "(string \<times> jsval option) list \<Rightarrow> (string \<times> jsval) list" where
  "obj [] = []"
| "obj ((k, None) # kvs) = obj kvs"
| "obj ((k, Some v) # kvs) = (k, v) # obj kvs"

definition error_message :: "string \<Rightarrow> jsval" where
  "error_message msg = JObj [(''type'', JStr ''error''), (''message'', JStr msg)]"


section \<open>Audio processing utilities\<close>

text \<open>
  \<open>convertToMp3(inputPath, outputPath)\<close> runs the external engine and resolves to the
  output path when it reports \<open>end\<close>, or rejects with its error.
\<close>

definition convertToMp3 :: "env \<Rightarrow> world \<Rightarrow> path \<Rightarrow> path \<Rightarrow> (string + path) \<times> world" where
  "convertToMp3 e w inputPath outputPath =
     (let w1 = log_fs (Ffmpeg inputPath outputPath) w
      in case ffmpeg_run e of
           Converted st \<Rightarrow> (Inr outputPath, w1\<lparr>files := write_file (files w1) outputPath st\<rparr>)
         | ConversionError msg partial \<Rightarrow>
             (Inl msg, case partial of
                         None \<Rightarrow> w1
                       | Some st \<Rightarrow> w1\<lparr>files := write_file (files w1) outputPath st\<rparr>))"

text \<open>
  \<open>audioData.replace(/^data:audio\/[^;]+;base64,/, '')\<close>: the run \<open>[^;]+\<close> ends at
  the first semicolon.
\<close>

definition strip_data_url :: "string \<Rightarrow> string" where
  "strip_data_url s =
     (if take 11 s = ''data:audio/''
      then (let r = drop 11 s; mime = takeWhile (\<lambda>c. c \<noteq> CHR '';'') r;
                t = dropWhile (\<lambda>c. c \<noteq> CHR '';'') r
            in if mime \<noteq> [] \<and> take 8 t = '';base64,'' then drop 8 t else s)
      else s)"

text \<open>
  \<open>saveAudioChunk(audioData, filename)\<close> writes the decoded payload to
  \<open>path.join(audioDir, filename)\<close>. A value that came out of \<open>JSON.parse\<close> is never a
  \<open>Buffer\<close>, so every non-string is refused.
\<close>

definition saveAudioChunk :: "env \<Rightarrow> world \<Rightarrow> jsval \<Rightarrow> string \<Rightarrow> (string + path) \<times> world" where
  "saveAudioChunk e w audioData filename =
     (let filePath = Path AudioDir filename
      in case audioData of
           JStr s \<Rightarrow>
             (let base64Data = strip_data_url s;
                  w1 = log_fs (WriteFile filePath) w
              in case writeFile_error e of
                   Some msg \<Rightarrow> (Inl msg, w1)
                 | None \<Rightarrow>
                     (Inr filePath,
                      w1\<lparr>files := write_file (files w1) filePath
                                     \<lparr>st_size = buffer_length e base64Data,
                                      st_birthtime = fs_clock e, st_mtime = fs_clock e\<rparr>\<rparr>))
         | _ \<Rightarrow> (Inl ''Invalid audio data format'', w))"

text \<open>
  The transcription placeholder. \<open>Math.round(size / 1024)\<close> rounds halves up;
  \<open>random_index\<close> is the value of
  \<open>Math.floor(Math.random() * mockTranscriptions.length)\<close>. Reading an array out of
  range gives \<open>undefined\<close>. The accented letters are the code units 0xF3, 0xE1, 0xE9.
\<close>

definition mockTranscriptions :: "string list" where
  "mockTranscriptions =
     [''Hola, este es un ejemplo de transcripci'' @ [CHR 0xF3] @ ''n de audio.'',
      ''Audio transcrito correctamente desde el archivo MP3.'',
      ''El sistema de transcripci'' @ [CHR 0xF3] @ ''n est'' @ [CHR 0xE1]
         @ '' funcionando correctamente.'',
      ''Procesando archivo de audio para generar texto.'',
      ''Transcripci'' @ [CHR 0xF3] @ ''n autom'' @ [CHR 0xE1] @ ''tica generada con ''
         @ [CHR 0xE9] @ ''xito.'']"

definition element_text :: "string list \<Rightarrow> nat \<Rightarrow> string" where
  "element_text xs i = (if i < length xs then xs ! i else ''undefined'')"

definition fileSizeKB :: "nat \<Rightarrow> nat" where
  "fileSizeKB size_bytes = (size_bytes + 512) div 1024"

definition processingTime :: "nat \<Rightarrow> nat" where
  "processingTime size_bytes = min 2000 (fileSizeKB size_bytes * 10)"

definition mock_text :: "nat \<Rightarrow> nat \<Rightarrow> string" where
  "mock_text randomIndex size_bytes =
     element_text mockTranscriptions randomIndex
       @ '' (Archivo: '' @ digits (fileSizeKB size_bytes) @ ''KB)''"

definition transcribeAudio :: "env \<Rightarrow> world \<Rightarrow> path \<Rightarrow> (string + string) \<times> world" where
  "transcribeAudio e w audioFilePath =
     (let w1 = log_fs (ExistsSync audioFilePath) w
      in if \<not> existsSync (files w1) audioFilePath then (Inl ''Audio file not found'', w1)
         else (let w2 = log_fs (StatSync audioFilePath) w1
               in case statSync (files w2) audioFilePath of
                    None \<Rightarrow> (Inl ''ENOENT: no such file or directory'', w2)
                  | Some st \<Rightarrow>
                      (Inr (mock_text (random_index e) (st_size st)),
                       w2\<lparr>timers := timers w2 @ [processingTime (st_size st)]\<rparr>)))"

text \<open>
  Removal of a staged file, written out in both ingress handlers as
  \<^verbatim>\<open>try { if (fs.existsSync(p)) await fs.promises.unlink(p) } catch { warn }\<close>.
\<close>

definition cleanup :: "env \<Rightarrow> world \<Rightarrow> path \<Rightarrow> world" where
  "cleanup e w p =
     (let w1 = log_fs (ExistsSync p) w
      in if existsSync (files w1) p
         then (let w2 = log_fs (Unlink p) w1
               in case unlink_error e of
                    None \<Rightarrow> w2\<lparr>files := remove_file (files w2) p\<rparr>
                  | Some msg \<Rightarrow> w2)
         else w1)"


section \<open>Translation\<close>

text \<open>
  \<open>response.data.response.trim()\<close> on the answer of \<open>axios.post\<close>: a rejected
  request, a \<open>null\<close> body, a missing field and a field that is not a string all throw.
\<close>

definition quote :: string where
  "quote = [CHR 0x27]"

definition completion_of :: "string + jsval \<Rightarrow> string + string" where
  "completion_of r =
     (case r of
        Inl msg \<Rightarrow> Inl msg
      | Inr JNull \<Rightarrow>
          Inl (''Cannot read properties of null (reading '' @ quote @ ''response'' @ quote @ '')'')
      | Inr d \<Rightarrow>
          (case get_prop d ''response'' of
             Some (JStr s) \<Rightarrow> Inr (trim s)
           | None \<Rightarrow>
               Inl (''Cannot read properties of undefined (reading '' @ quote @ ''trim''
                      @ quote @ '')'')
           | Some JNull \<Rightarrow>
               Inl (''Cannot read properties of null (reading '' @ quote @ ''trim'' @ quote @ '')'')
           | Some _ \<Rightarrow> Inl ''response.data.response.trim is not a function''))"

definition translate_prompt :: "string \<Rightarrow> string \<Rightarrow> string \<Rightarrow> string" where
  "translate_prompt sourceLanguage targetLanguage text =
     ''Translate the following text from '' @ sourceLanguage @ '' to '' @ targetLanguage
       @ ''. Only return the translation, no explanations:'' @ [CHR 0x0A, CHR 0x0A]
       @ ''Text to translate: '' @ [CHR 0x22] @ text @ [CHR 0x22] @ [CHR 0x0A, CHR 0x0A]
       @ ''Translation:''"

text \<open>
  \<open>handleTranslation(ws, data)\<close>: it reads \<open>text\<close>, \<open>targetLanguage\<close> and
  \<open>sourceLanguage\<close> of its argument and nothing else, and catches its own errors.
  Destructuring \<open>null\<close> throws inside the \<open>try\<close>, before anything is posted.
\<close>

definition handleTranslation :: "env \<Rightarrow> world \<Rightarrow> jsval \<Rightarrow> world" where
  "handleTranslation e w data =
     (if data = JNull
      then ws_send (error_message
                      (''Translation failed: '' @ ''Cannot destructure property '' @ quote
                         @ ''text'' @ quote @ '' of '' @ quote @ ''data'' @ quote
                         @ '' as it is null.'')) w
      else
       (let text = get_prop data ''text'';
            targetLanguage = with_default (get_prop data ''targetLanguage'') (JStr ''en'');
            sourceLanguage = with_default (get_prop data ''sourceLanguage'') (JStr ''auto'');
            prompt = translate_prompt (to_string sourceLanguage) (to_string targetLanguage)
                       (to_string_opt text);
            w1 = w\<lparr>posted := posted w @ [prompt]\<rparr>
        in case completion_of (axios_post e prompt) of
             Inr translation \<Rightarrow>
               ws_send (JObj (obj [(''type'', Some (JStr ''translation'')),
                                   (''originalText'', text),
                                   (''translatedText'', Some (JStr translation)),
                                   (''sourceLanguage'', Some sourceLanguage),
                                   (''targetLanguage'', Some targetLanguage),
                                   (''timestamp'',
                                      Some (JStr (iso_clock e (length (sent w1)))))])) w1
           | Inl msg \<Rightarrow> ws_send (error_message (''Translation failed: '' @ msg)) w1))"


section \<open>Streaming ingress\<close>

definition transcription_failed :: "string \<Rightarrow> world \<Rightarrow> world" where
  "transcription_failed msg w = ws_send (error_message (''Transcription failed: '' @ msg)) w"

text \<open>
  \<open>handleAudioChunk(ws, data)\<close>. The six steps are inside one \<open>try\<close>; its \<open>catch\<close>
  sends the error notification and does nothing else.
\<close>

definition handleAudioChunk :: "env \<Rightarrow> world \<Rightarrow> jsval \<Rightarrow> world" where
  "handleAudioChunk e w data =
     (if data = JNull
      then transcription_failed
             (''Cannot destructure property '' @ quote @ ''audioData'' @ quote @ '' of ''
                @ quote @ ''data'' @ quote @ '' as it is null.'') w
      else
       (let audioData = get_prop data ''audioData'';
            targetLanguage = with_default (get_prop data ''targetLanguage'') (JStr ''en'');
            sessionId = get_prop data ''sessionId''
        in case audioData of
             None \<Rightarrow> transcription_failed ''No audio data provided'' w
           | Some audio \<Rightarrow>
              if \<not> truthy audioData then transcription_failed ''No audio data provided'' w
              else
               (let timestamp = date_now e;
                    uniqueId = uuidv4 e;
                    tempName = tempFilename timestamp uniqueId;
                    mp3Name = mp3Filename Streaming timestamp uniqueId
                in case saveAudioChunk e w audio tempName of
                     (Inl msg, w1) \<Rightarrow> transcription_failed msg w1
                   | (Inr tempAudioPath, w1) \<Rightarrow>
                      (let mp3Path = Path AudioDir mp3Name
                       in case convertToMp3 e w1 tempAudioPath mp3Path of
                            (Inl msg, w2) \<Rightarrow> transcription_failed msg w2
                          | (Inr converted, w2) \<Rightarrow>
                             (case transcribeAudio e w2 mp3Path of
                                (Inl msg, w3) \<Rightarrow> transcription_failed msg w3
                              | (Inr transcriptionText, w3) \<Rightarrow>
                                 (let w4 = ws_send
                                        (JObj [(''type'', JStr ''transcription''),
                                               (''text'', JStr transcriptionText),
                                               (''audioFile'', JStr mp3Name),
                                               (''timestamp'', JStr (iso_clock e (length (sent w3)))),
                                               (''sessionId'', js_or sessionId (JStr uniqueId))]) w3;
                                      w5 = (if trim transcriptionText \<noteq> []
                                            then handleTranslation e w4
                                                   (JObj [(''text'', JStr transcriptionText),
                                                          (''targetLanguage'', targetLanguage),
                                                          (''sessionId'',
                                                             js_or sessionId (JStr uniqueId))])
                                            else w4)
                                  in cleanup e w5 tempAudioPath))))))"

text \<open>\<open>getAvailableModels(ws)\<close>: \<open>(response.data.models || []).map(...)\<close>.\<close>

definition model_summary :: "jsval \<Rightarrow> string + jsval" where
  "model_summary m =
     (if m = JNull
      then Inl (''Cannot read properties of null (reading '' @ quote @ ''name'' @ quote @ '')'')
      else Inr (JObj (obj [(''name'', get_prop m ''name''), (''size'', get_prop m ''size''),
                           (''modified_at'', get_prop m ''modified_at'')])))"

fun model_summaries :: "jsval list \<Rightarrow> string + jsval list" where
  "model_summaries [] = Inr []"
| "model_summaries (m # ms) =
     (case model_summary m of
        Inl msg \<Rightarrow> Inl msg
      | Inr x \<Rightarrow> (case model_summaries ms of Inl msg \<Rightarrow> Inl msg | Inr xs \<Rightarrow> Inr (x # xs)))"

definition models_of :: "string + jsval \<Rightarrow> string + jsval list" where
  "models_of r =
     (case r of
        Inl msg \<Rightarrow> Inl msg
      | Inr JNull \<Rightarrow>
          Inl (''Cannot read properties of null (reading '' @ quote @ ''models'' @ quote @ '')'')
      | Inr d \<Rightarrow>
          (case js_or (get_prop d ''models'') (JArr []) of
             JArr ms \<Rightarrow> model_summaries ms
           | _ \<Rightarrow> Inl ''models.map is not a function''))"

definition getAvailableModels :: "env \<Rightarrow> world \<Rightarrow> world" where
  "getAvailableModels e w =
     (case models_of (axios_get e) of
        Inr ms \<Rightarrow> ws_send (JObj [(''type'', JStr ''models''), (''models'', JArr ms)]) w
      | Inl msg \<Rightarrow> ws_send (error_message (''Failed to fetch models: '' @ msg)) w)"

text \<open>
  The \<open>message\<close> handler of a connection. Its argument is the outcome of
  \<open>JSON.parse(message)\<close>: the message of the \<open>SyntaxError\<close>, or the parsed value.
  \<open>switch\<close> compares with \<open>===\<close>, so only a string can select a case.
\<close>

definition on_message :: "env \<Rightarrow> world \<Rightarrow> string + jsval \<Rightarrow> world" where
  "on_message e w parsed =
     (case parsed of
        Inl msg \<Rightarrow> ws_send (error_message msg) w
      | Inr JNull \<Rightarrow>
          ws_send (error_message (''Cannot read properties of null (reading '' @ quote @ ''type''
                                    @ quote @ '')'')) w
      | Inr data \<Rightarrow>
          (let ty = get_prop data ''type''
           in if ty = Some (JStr ''audio-chunk'') then handleAudioChunk e w data
              else if ty = Some (JStr ''translate'') then handleTranslation e w data
              else if ty = Some (JStr ''get-models'') then getAvailableModels e w
              else ws_send (error_message ''Unknown message type'') w))"


section \<open>One-shot ingress and artifact retrieval\<close>

datatype response =
    Json nat jsval
  | Download "(string \<times> string) list" path
  | Listing "(string \<times> stats) list"

record multer_file =
  file_path :: path
  originalname :: string

record upload_request =
  req_file :: "multer_file option"
  body_targetLanguage :: "jsval option"

definition upload_prompt :: "string \<Rightarrow> string \<Rightarrow> string" where
  "upload_prompt targetLanguage text =
     ''Translate the following text to '' @ targetLanguage
       @ ''. Only return the translation, no explanations:'' @ [CHR 0x0A, CHR 0x0A]
       @ ''Text to translate: '' @ [CHR 0x22] @ text @ [CHR 0x22] @ [CHR 0x0A, CHR 0x0A]
       @ ''Translation:''"

text \<open>Step 3 of the upload route: the optional translation, with its own \<open>try\<close>.\<close>

definition upload_translation :: "env \<Rightarrow> world \<Rightarrow> jsval \<Rightarrow> string \<Rightarrow> jsval \<times> world" where
  "upload_translation e w targetLanguage transcriptionText =
     (if truthy (Some targetLanguage) \<and> targetLanguage \<noteq> JStr ''auto''
         \<and> trim transcriptionText \<noteq> []
      then (let prompt = upload_prompt (to_string targetLanguage) transcriptionText;
                w1 = w\<lparr>posted := posted w @ [prompt]\<rparr>
            in case completion_of (axios_post e prompt) of
                 Inr translation \<Rightarrow>
                   (JObj [(''translatedText'', JStr translation),
                          (''targetLanguage'', targetLanguage)], w1)
               | Inl msg \<Rightarrow> (JNull, w1))
      else (JNull, w))"

text \<open>
  \<open>app.post('/transcribe')\<close>. The inner \<open>try\<close> has a \<open>finally\<close> that removes the
  uploaded file; the outer \<open>catch\<close> answers 500.
\<close>

definition post_transcribe :: "env \<Rightarrow> world \<Rightarrow> upload_request \<Rightarrow> response \<times> world" where
  "post_transcribe e w req =
     (case req_file req of
        None \<Rightarrow> (Json 400 (JObj [(''error'', JStr ''No audio file provided'')]), w)
      | Some f \<Rightarrow>
         (let targetLanguage = with_default (body_targetLanguage req) (JStr ''en'');
              uploadedFilePath = file_path f;
              mp3Name = mp3Filename Upload (date_now e) (uuidv4 e);
              mp3Path = Path AudioDir mp3Name;
              failed = (\<lambda>msg. Json 500 (JObj [(''error'', JStr ''Transcription failed''),
                                              (''details'', JStr msg)]))
          in case convertToMp3 e w uploadedFilePath mp3Path of
               (Inl msg, w1) \<Rightarrow> (failed msg, cleanup e w1 uploadedFilePath)
             | (Inr converted, w1) \<Rightarrow>
                (case transcribeAudio e w1 mp3Path of
                   (Inl msg, w2) \<Rightarrow> (failed msg, cleanup e w2 uploadedFilePath)
                 | (Inr transcriptionText, w2) \<Rightarrow>
                    (case upload_translation e w2 targetLanguage transcriptionText of
                       (translationResult, w3) \<Rightarrow>
                         (Json 200 (JObj [(''transcription'', JStr transcriptionText),
                                          (''audioFile'', JStr mp3Name),
                                          (''translation'', translationResult),
                                          (''timestamp'', JStr (iso_clock e 0)),
                                          (''originalFile'', JStr (originalname f))]),
                          cleanup e w3 uploadedFilePath)))))"

text \<open>
  \<open>app.get('/audio/:filename')\<close>. \<open>path.join\<close> only builds the path; the first
  filesystem call is \<open>existsSync\<close>, after the pattern test.
\<close>

definition get_audio_file :: "world \<Rightarrow> string \<Rightarrow> response \<times> world" where
  "get_audio_file w filename =
     (let filePath = Path AudioDir filename
      in if \<not> matches_audio_name filename
         then (Json 400 (JObj [(''error'', JStr ''Invalid filename'')]), w)
         else (let w1 = log_fs (ExistsSync filePath) w
               in if \<not> existsSync (files w1) filePath
                  then (Json 404 (JObj [(''error'', JStr ''Audio file not found'')]), w1)
                  else (Download [(''Content-Type'', ''audio/mpeg''),
                                  (''Content-Disposition'',
                                     ''attachment; filename='' @ [CHR 0x22] @ filename
                                       @ [CHR 0x22])] filePath,
                        log_fs (CreateReadStream filePath) w1)))"

text \<open>
  \<open>app.get('/audio')\<close>: \<open>readdirSync\<close>, the filter on the two suffixes, one
  \<open>statSync\<close> per kept name, and \<open>sort((a, b) => b.created - a.created)\<close>, which is
  stable. An entry of the answer is the name with the \<open>stats\<close> its \<open>size\<close>,
  \<open>created\<close> (the birth time) and \<open>modified\<close> (the modification time) are read from.
\<close>

definition is_listed :: "string \<Rightarrow> bool" where
  "is_listed file = (endsWith file ''.mp3'' \<or> endsWith file ''.wav'')"

fun stat_each :: "filesystem \<Rightarrow> string list \<Rightarrow> (string \<times> stats) list option" where
  "stat_each fs [] = Some []"
| "stat_each fs (file # rest) =
     (case statSync fs (Path AudioDir file) of
        None \<Rightarrow> None
      | Some st \<Rightarrow> (case stat_each fs rest of None \<Rightarrow> None | Some xs \<Rightarrow> Some ((file, st) # xs)))"

definition newest_first :: "(string \<times> stats) list \<Rightarrow> (string \<times> stats) list" where
  "newest_first xs = sort_key (\<lambda>x. - int (st_birthtime (snd x))) xs"

definition list_audio_files :: "world \<Rightarrow> response \<times> world" where
  "list_audio_files w =
     (let names = filter is_listed (readdirSync (files w) AudioDir);
          w1 = w\<lparr>fs_log := fs_log w @ ReaddirSync AudioDir
                                # map (\<lambda>n. StatSync (Path AudioDir n)) names\<rparr>
      in case stat_each (files w) names of
           None \<Rightarrow> (Json 500 (JObj [(''error'', JStr ''Failed to list audio files'')]), w1)
         | Some entries \<Rightarrow> (Listing (newest_first entries), w1))"


section \<open>Example inputs\<close>

definition example_files :: filesystem where
  "example_files d =
     (case d of
        AudioDir \<Rightarrow> [(''audio_5_ab.mp3'', \<lparr>st_size = 2048, st_birthtime = 5, st_mtime = 6\<rparr>)]
      | UploadsDir \<Rightarrow> [(''7-123.wav'', \<lparr>st_size = 4096, st_birthtime = 7, st_mtime = 7\<rparr>)])"

definition example_world :: world where
  "example_world = \<lparr>files = example_files, fs_log = [], sent = [], posted = [], timers = []\<rparr>"

definition example_env :: env where
  "example_env =
     \<lparr>date_now = 1700000000000,
      uuidv4 = ''1b9d6bcd-bbfd-4b2d-9b5d-ab8dfbbd4bed'',
      random_index = 2,
      iso_clock = (\<lambda>k. ''2023-11-14T22:13:20.000Z''),
      fs_clock = 1700000000000,
      buffer_length = (\<lambda>s. length s div 4 * 3),
      writeFile_error = None,
      ffmpeg_run = Converted \<lparr>st_size = 3000, st_birthtime = 1700000000050,
                               st_mtime = 1700000000090\<rparr>,
      unlink_error = None,
      axios_post = (\<lambda>prompt. Inr (JObj [(''response'', JStr '' Audio transcribed. '')])),
      axios_get = Inl ''connect ECONNREFUSED 127.0.0.1:11434''\<rparr>"

text \<open>The same environment with a generation service that refuses the connection.\<close>

definition offline_env :: env where
  "offline_env = example_env\<lparr>axios_post := (\<lambda>prompt. Inl ''connect ECONNREFUSED 127.0.0.1:11434'')\<rparr>"

text \<open>The same environment with a conversion engine that rejects the input.\<close>

definition broken_audio_env :: env where
  "broken_audio_env =
     example_env\<lparr>ffmpeg_run := ConversionError ''ffmpeg exited with code 1'' None\<rparr>"

definition example_chunk :: jsval where
  "example_chunk =
     JObj [(''type'', JStr ''audio-chunk''),
           (''audioData'', JStr ''data:audio/wav;base64,UklGRnoGAABXQVZF''),
           (''targetLanguage'', JStr ''en''),
           (''sessionId'', JStr ''my-session-123'')]"

definition example_upload :: upload_request where
  "example_upload =
     \<lparr>req_file = Some \<lparr>file_path = Path UploadsDir ''7-123.wav'', originalname = ''mi_audio.wav''\<rparr>,
      body_targetLanguage = None\<rparr>"

text \<open>The body of a JSON answer.\<close>

definition json_body :: "response \<Rightarrow> jsval" where
  "json_body r = (case r of Json code b \<Rightarrow> b | _ \<Rightarrow> JNull)"

text \<open>An upload that asks for the target language \<open>auto\<close>.\<close>

definition auto_upload :: upload_request where
  "auto_upload = example_upload\<lparr>body_targetLanguage := Some (JStr ''auto'')\<rparr>"

text \<open>A persistent directory that holds an artifact, a text file and a staged payload.\<close>

definition staging_world :: world where
  "staging_world =
     \<lparr>files = (\<lambda>d. case d of
                  AudioDir \<Rightarrow>
                    [(''audio_5_ab.mp3'', \<lparr>st_size = 2048, st_birthtime = 5, st_mtime = 6\<rparr>),
                     (''notes.txt'', \<lparr>st_size = 10, st_birthtime = 7, st_mtime = 7\<rparr>),
                     (''temp_9_cd.wav'', \<lparr>st_size = 4096, st_birthtime = 9, st_mtime = 9\<rparr>)]
                | UploadsDir \<Rightarrow> []),
      fs_log = [], sent = [], posted = [], timers = []\<rparr>"


text \<open>
  The world of the example streaming job when its transcription returns: the payload has
  been staged, converted and transcribed.
\<close>

definition example_transcribed :: world where
  "example_transcribed =
     snd (transcribeAudio example_env
            (snd (convertToMp3 example_env
                    (snd (saveAudioChunk example_env example_world
                            (JStr ''data:audio/wav;base64,UklGRnoGAABXQVZF'')
                            (tempFilename (date_now example_env) (uuidv4 example_env))))
                    (Path AudioDir (tempFilename (date_now example_env) (uuidv4 example_env)))
                    (Path AudioDir (mp3Filename Streaming (date_now example_env)
                                      (uuidv4 example_env)))))
            (Path AudioDir (mp3Filename Streaming (date_now example_env) (uuidv4 example_env))))"


section \<open>Auxiliary notions for the statements\<close>

text \<open>The transcription notification of step 4 of the streaming handler.\<close>

definition transcription_message :: "env \<Rightarrow> world \<Rightarrow> jsval \<Rightarrow> string \<Rightarrow> jsval" where
  "transcription_message e w data text =
     JObj [(''type'', JStr ''transcription''),
           (''text'', JStr text),
           (''audioFile'', JStr (mp3Filename Streaming (date_now e) (uuidv4 e))),
           (''timestamp'', JStr (iso_clock e (length (sent w)))),
           (''sessionId'', js_or (get_prop data ''sessionId'') (JStr (uuidv4 e)))]"

text \<open>A message without \<open>sessionId\<close> that is not a transcription notification.\<close>

definition untagged :: "jsval \<Rightarrow> bool" where
  "untagged m = (get_prop m ''sessionId'' = None \<and> get_prop m ''type'' \<noteq> Some (JStr ''transcription''))"

text \<open>The tagging rule: a transcription notification carries the session, nothing else does.\<close>

definition well_tagged :: "env \<Rightarrow> jsval \<Rightarrow> jsval \<Rightarrow> bool" where
  "well_tagged e data m =
     (if get_prop m ''type'' = Some (JStr ''transcription'')
      then get_prop m ''sessionId'' = Some (js_or (get_prop data ''sessionId'') (JStr (uuidv4 e)))
      else get_prop m ''sessionId'' = None)"


section \<open>Filename validation\<close>


lemma not_name_dot: "\<not> is_name_char CHR ''.''" by (simp add: is_name_char_def)

lemma matches_iff_language: "matches_audio_name s \<longleftrightarrow> in_audio_name_language s"
proof
  assume m: "matches_audio_name s"
  let ?stem = "takeWhile is_name_char s" and ?rest = "dropWhile is_name_char s"
  have s: "s = ?stem @ ?rest" by simp
  from m have ne: "?stem \<noteq> []" and r: "?rest = ''.mp3'' \<or> ?rest = ''.wav''"
    by (simp_all add: matches_audio_name_def Let_def)
  have all: "\<forall>c \<in> set ?stem. is_name_char c" by (auto dest: set_takeWhileD)
  from r show "in_audio_name_language s"
  proof
    assume "?rest = ''.mp3''"
    with s have "s = ?stem @ ''.'' @ ''mp3''" by simp
    with ne all show ?thesis unfolding in_audio_name_language_def
      by (intro exI[of _ ?stem] exI[of _ "''mp3''"]) simp
  next
    assume "?rest = ''.wav''"
    with s have "s = ?stem @ ''.'' @ ''wav''" by simp
    with ne all show ?thesis unfolding in_audio_name_language_def
      by (intro exI[of _ ?stem] exI[of _ "''wav''"]) simp
  qed
next
  assume "in_audio_name_language s"
  then obtain stem ext where s: "s = stem @ ''.'' @ ext" and ne: "stem \<noteq> []"
    and all: "\<forall>c \<in> set stem. is_name_char c" and ext: "ext = ''mp3'' \<or> ext = ''wav''"
    unfolding in_audio_name_language_def by blast
  have tw: "takeWhile is_name_char s = stem"
    using all by (simp add: s takeWhile_append2 not_name_dot)
  have dw: "dropWhile is_name_char s = ''.'' @ ext"
    using all by (simp add: s dropWhile_append2 not_name_dot)
  show "matches_audio_name s"
    using ne ext by (auto simp: matches_audio_name_def Let_def tw dw)
qed

lemma str_includes_iff: "str_includes s sub \<longleftrightarrow> (\<exists>a b. s = a @ sub @ b)"
proof (induction s)
  case Nil
  then show ?case by auto
next
  case (Cons c cs)
  show ?case
  proof
    assume "str_includes (c # cs) sub"
    then consider "take (length sub) (c # cs) = sub" | "str_includes cs sub" by auto
    then show "\<exists>a b. c # cs = a @ sub @ b"
    proof cases
      case 1
      then have "c # cs = [] @ sub @ drop (length sub) (c # cs)"
        using append_take_drop_id[of "length sub" "c # cs"] by simp
      then show ?thesis by (intro exI)
    next
      case 2
      with Cons.IH obtain a b where "cs = a @ sub @ b" by blast
      then have "c # cs = (c # a) @ sub @ b" by simp
      then show ?thesis by (intro exI)
    qed
  next
    assume "\<exists>a b. c # cs = a @ sub @ b"
    then obtain a b where ab: "c # cs = a @ sub @ b" by blast
    show "str_includes (c # cs) sub"
    proof (cases a)
      case Nil
      with ab have "take (length sub) (c # cs) = sub" by simp
      then show ?thesis by simp
    next
      case (Cons x a')
      with ab have "cs = a' @ sub @ b" by simp
      with Cons.IH have "str_includes cs sub" by blast
      then show ?thesis by simp
    qed
  qed
qed

lemma language_one_dot:
  assumes "in_audio_name_language s"
  shows "filter (\<lambda>c. c = CHR ''.'') s = ''.''"
proof -
  from assms obtain stem ext where s: "s = stem @ ''.'' @ ext"
    and all: "\<forall>c \<in> set stem. is_name_char c" and ext: "ext = ''mp3'' \<or> ext = ''wav''"
    unfolding in_audio_name_language_def by blast
  have "filter (\<lambda>c. c = CHR ''.'') stem = []"
    using all not_name_dot by (auto simp: filter_empty_conv)
  moreover have "filter (\<lambda>c. c = CHR ''.'') ext = []" using ext by auto
  ultimately show ?thesis by (simp add: s)
qed

lemma language_chars:
  assumes "in_audio_name_language s" and "c \<in> set s"
  shows "is_name_char c \<or> c = CHR ''.''"
proof -
  from assms(1) obtain stem ext where s: "s = stem @ ''.'' @ ext"
    and all: "\<forall>c \<in> set stem. is_name_char c" and ext: "ext = ''mp3'' \<or> ext = ''wav''"
    unfolding in_audio_name_language_def by blast
  from ext have "\<forall>c \<in> set ext. is_name_char c" by (auto simp: is_name_char_def)
  with all assms(2) show ?thesis by (auto simp: s)
qed

lemma traversal_rejected:
  assumes "str_includes s ''..'' \<or> CHR ''/'' \<in> set s \<or> CHR 0x00 \<in> set s"
  shows "\<not> matches_audio_name s"
proof
  assume "matches_audio_name s"
  then have lang: "in_audio_name_language s" by (simp add: matches_iff_language)
  from assms consider "str_includes s ''..''" | "CHR ''/'' \<in> set s" | "CHR 0x00 \<in> set s" by blast
  then show False
  proof cases
    case 1
    then obtain a b where "s = a @ ''..'' @ b" by (auto simp: str_includes_iff)
    then have "length (filter (\<lambda>c. c = CHR ''.'') s) \<ge> 2" by simp
    with language_one_dot[OF lang] show False by simp
  next
    case 2
    have "\<not> is_name_char CHR ''/''" by (simp add: is_name_char_def)
    with language_chars[OF lang 2] show False by simp
  next
    case 3
    have "\<not> is_name_char (CHR 0x00)" by (simp add: is_name_char_def)
    with language_chars[OF lang 3] show False by simp
  qed
qed

text \<open>
  C1. A requested name that does not match \<open>^[A-Za-z0-9_-]+\.(mp3|wav)$\<close> is answered
  400 \<open>Invalid filename\<close> with the world untouched, so with no filesystem call; a name
  containing \<open>..\<close>, \<open>/\<close> or the null character never matches; a matching name of
  an existing file is served as a download; a matching name with no file is answered 404.
  The matcher accepts exactly the language of the pattern.
\<close>

theorem download_filename_validation:
  "(\<not> matches_audio_name filename \<longrightarrow>
      get_audio_file w filename = (Json 400 (JObj [(''error'', JStr ''Invalid filename'')]), w))
   \<and> (str_includes filename ''..'' \<or> CHR ''/'' \<in> set filename \<or> CHR 0x00 \<in> set filename \<longrightarrow>
      \<not> matches_audio_name filename)
   \<and> (matches_audio_name filename \<and> existsSync (files w) (Path AudioDir filename) \<longrightarrow>
      get_audio_file w filename =
        (Download [(''Content-Type'', ''audio/mpeg''),
                   (''Content-Disposition'',
                      ''attachment; filename='' @ [CHR 0x22] @ filename @ [CHR 0x22])]
           (Path AudioDir filename),
         w\<lparr>fs_log := fs_log w @ [ExistsSync (Path AudioDir filename),
                                   CreateReadStream (Path AudioDir filename)]\<rparr>))
   \<and> (matches_audio_name filename \<and> \<not> existsSync (files w) (Path AudioDir filename) \<longrightarrow>
      fst (get_audio_file w filename) = Json 404 (JObj [(''error'', JStr ''Audio file not found'')]))
   \<and> (matches_audio_name filename \<longleftrightarrow> in_audio_name_language filename)"
proof (intro conjI impI)
  assume "\<not> matches_audio_name filename"
  then show "get_audio_file w filename
               = (Json 400 (JObj [(''error'', JStr ''Invalid filename'')]), w)"
    by (simp add: get_audio_file_def Let_def)
next
  assume "str_includes filename ''..'' \<or> CHR ''/'' \<in> set filename \<or> CHR 0x00 \<in> set filename"
  then show "\<not> matches_audio_name filename" by (rule traversal_rejected)
next
  assume "matches_audio_name filename \<and> existsSync (files w) (Path AudioDir filename)"
  then show "get_audio_file w filename =
        (Download [(''Content-Type'', ''audio/mpeg''),
                   (''Content-Disposition'',
                      ''attachment; filename='' @ [CHR 0x22] @ filename @ [CHR 0x22])]
           (Path AudioDir filename),
         w\<lparr>fs_log := fs_log w @ [ExistsSync (Path AudioDir filename),
                                   CreateReadStream (Path AudioDir filename)]\<rparr>)"
    by (simp add: get_audio_file_def log_fs_def Let_def)
next
  assume "matches_audio_name filename \<and> \<not> existsSync (files w) (Path AudioDir filename)"
  then show "fst (get_audio_file w filename)
               = Json 404 (JObj [(''error'', JStr ''Audio file not found'')])"
    by (simp add: get_audio_file_def log_fs_def Let_def)
next
  show "matches_audio_name filename \<longleftrightarrow> in_audio_name_language filename"
    by (rule matches_iff_language)
qed

theorem download_filename_validation_witness:
  "\<not> matches_audio_name ''../server.js'' \<and> str_includes ''../server.js'' ''..''
   \<and> get_audio_file example_world ''../server.js''
       = (Json 400 (JObj [(''error'', JStr ''Invalid filename'')]), example_world)
   \<and> matches_audio_name ''audio_5_ab.mp3''
   \<and> existsSync (files example_world) (Path AudioDir ''audio_5_ab.mp3'')
   \<and> fs_log (snd (get_audio_file example_world ''audio_5_ab.mp3''))
       = [ExistsSync (Path AudioDir ''audio_5_ab.mp3''),
          CreateReadStream (Path AudioDir ''audio_5_ab.mp3'')]
   \<and> matches_audio_name ''missing.wav''
   \<and> \<not> existsSync (files example_world) (Path AudioDir ''missing.wav'')
   \<and> fst (get_audio_file example_world ''missing.wav'')
       = Json 404 (JObj [(''error'', JStr ''Audio file not found'')])
   \<and> in_audio_name_language ''audio_5_ab.mp3''"
proof -
  have bad: "str_includes ''../server.js'' ''..''" by simp
  have good: "matches_audio_name ''audio_5_ab.mp3''"
    by (simp add: matches_audio_name_def is_name_char_def)
  have there: "existsSync (files example_world) (Path AudioDir ''audio_5_ab.mp3'')"
    by (simp add: existsSync_def example_world_def example_files_def)
  have absent: "matches_audio_name ''missing.wav''"
    by (simp add: matches_audio_name_def is_name_char_def)
  have nofile: "\<not> existsSync (files example_world) (Path AudioDir ''missing.wav'')"
    by (simp add: existsSync_def example_world_def example_files_def)
  note a = download_filename_validation[of "''../server.js''" example_world]
  note b = download_filename_validation[of "''audio_5_ab.mp3''" example_world]
  note c = download_filename_validation[of "''missing.wav''" example_world]
  from a bad have r1: "\<not> matches_audio_name ''../server.js''" by blast
  with a have r2: "get_audio_file example_world ''../server.js''
       = (Json 400 (JObj [(''error'', JStr ''Invalid filename'')]), example_world)" by blast
  from b good there have "get_audio_file example_world ''audio_5_ab.mp3'' =
        (Download [(''Content-Type'', ''audio/mpeg''),
                   (''Content-Disposition'',
                      ''attachment; filename='' @ [CHR 0x22] @ ''audio_5_ab.mp3'' @ [CHR 0x22])]
           (Path AudioDir ''audio_5_ab.mp3''),
         example_world\<lparr>fs_log := fs_log example_world
             @ [ExistsSync (Path AudioDir ''audio_5_ab.mp3''),
                CreateReadStream (Path AudioDir ''audio_5_ab.mp3'')]\<rparr>)" by blast
  then have r3: "fs_log (snd (get_audio_file example_world ''audio_5_ab.mp3''))
       = [ExistsSync (Path AudioDir ''audio_5_ab.mp3''),
          CreateReadStream (Path AudioDir ''audio_5_ab.mp3'')]"
    by (simp add: example_world_def)
  from c absent nofile have r4: "fst (get_audio_file example_world ''missing.wav'')
       = Json 404 (JObj [(''error'', JStr ''Audio file not found'')])" by blast
  from b good have r5: "in_audio_name_language ''audio_5_ab.mp3''" by blast
  from r1 bad r2 good there r3 absent nofile r4 r5 show ?thesis by (intro conjI)
qed


section \<open>Canonical names\<close>
















section \<open>Unknown message types\<close>

text \<open>
  C9. A parsed message whose \<open>type\<close> is none of \<open>audio-chunk\<close>, \<open>translate\<close>,
  \<open>get-models\<close> makes the handler send exactly one message, of type \<open>error\<close>, on the
  connection it came from, and touch no file: \<open>Unknown message type\<close> from the
  \<open>default\<close> branch, or the message of the \<open>TypeError\<close> when the parsed value is
  \<open>null\<close>.
\<close>

theorem unknown_type_answers_error:
  assumes "get_prop data ''type'' \<noteq> Some (JStr ''audio-chunk'')"
    and "get_prop data ''type'' \<noteq> Some (JStr ''translate'')"
    and "get_prop data ''type'' \<noteq> Some (JStr ''get-models'')"
  shows "sent (on_message e w (Inr data))
           = sent w @ [error_message
                (if data = JNull
                 then ''Cannot read properties of null (reading '' @ quote @ ''type'' @ quote @ '')''
                 else ''Unknown message type'')]
         \<and> files (on_message e w (Inr data)) = files w
         \<and> get_prop (last (sent (on_message e w (Inr data)))) ''type'' = Some (JStr ''error'')"
  using assms by (cases data) (simp_all add: on_message_def ws_send_def error_message_def Let_def)

text \<open>
  The hypotheses hold for a message of type \<open>ping\<close>.
\<close>

theorem unknown_type_answers_error_witness:
  "get_prop (JObj [(''type'', JStr ''ping'')]) ''type'' \<noteq> Some (JStr ''audio-chunk'')
   \<and> sent (on_message example_env example_world (Inr (JObj [(''type'', JStr ''ping'')])))
       = [error_message ''Unknown message type'']"
proof -
  have a: "get_prop (JObj [(''type'', JStr ''ping'')]) ''type'' \<noteq> Some (JStr ''audio-chunk'')"
    and b: "get_prop (JObj [(''type'', JStr ''ping'')]) ''type'' \<noteq> Some (JStr ''translate'')"
    and c: "get_prop (JObj [(''type'', JStr ''ping'')]) ''type'' \<noteq> Some (JStr ''get-models'')"
    by simp_all
  from unknown_type_answers_error[OF a b c, of example_env example_world] a
  show ?thesis by (simp add: example_world_def)
qed


section \<open>The upload route\<close>

lemma upload_translation_failed:
  "completion_of (axios_post e (upload_prompt (to_string lang) text)) = Inl msg
   \<Longrightarrow> fst (upload_translation e w lang text) = JNull"
  by (simp add: upload_translation_def Let_def)

text \<open>
  C4. On the upload route, when the conversion and the transcription succeed and the
  translation call fails (the request is rejected, or the answer has no usable
  \<open>response\<close> field), the answer is 200 with the transcript, the canonical file name
  and \<open>translation: null\<close>.
\<close>

theorem translation_failure_is_not_fatal:
  assumes f: "req_file req = Some f"
    and conv: "convertToMp3 e w (file_path f)
                 (Path AudioDir (mp3Filename Upload (date_now e) (uuidv4 e))) = (Inr p, w1)"
    and tr: "transcribeAudio e w1 (Path AudioDir (mp3Filename Upload (date_now e) (uuidv4 e)))
               = (Inr transcriptionText, w2)"
    and fail: "completion_of (axios_post e
                 (upload_prompt (to_string (with_default (body_targetLanguage req) (JStr ''en'')))
                    transcriptionText)) = Inl msg"
  shows "fst (post_transcribe e w req)
           = Json 200 (JObj [(''transcription'', JStr transcriptionText),
                             (''audioFile'', JStr (mp3Filename Upload (date_now e) (uuidv4 e))),
                             (''translation'', JNull),
                             (''timestamp'', JStr (iso_clock e 0)),
                             (''originalFile'', JStr (originalname f))])"
proof -
  from fail have "fst (upload_translation e w2
                    (with_default (body_targetLanguage req) (JStr ''en'')) transcriptionText) = JNull"
    by (rule upload_translation_failed)
  then show ?thesis
    using f conv tr by (auto simp: post_transcribe_def Let_def split: prod.splits)
qed

lemma map_of_overwrite:
  "map_of xs n = Some v \<Longrightarrow>
   map_of (map (\<lambda>(k, v). if k = n then (k, g v) else (k, v)) xs) n = Some (g v)"
  by (induction xs) (auto split: if_splits)

lemma statSync_write_file:
  "\<exists>st'. statSync (write_file fs p st) p = Some st' \<and> st_size st' = st_size st"
proof (cases p)
  case (Path d n)
  show ?thesis
  proof (cases "map_of (fs d) n")
    case None
    then show ?thesis by (simp add: Path statSync_def write_file_def map_add_def)
  next
    case (Some v)
    from map_of_overwrite[OF Some, of "\<lambda>v. st\<lparr>st_birthtime := st_birthtime v\<rparr>"]
    show ?thesis by (simp add: Path statSync_def write_file_def Some)
  qed
qed

lemma existsSync_statSync: "existsSync fs p = (statSync fs p \<noteq> None)"
  by (cases p) (simp add: existsSync_def statSync_def)

lemma transcribeAudio_of_stat:
  assumes "statSync (files w) p = Some st"
  shows "transcribeAudio e w p
           = (Inr (mock_text (random_index e) (st_size st)),
              w\<lparr>fs_log := fs_log w @ [ExistsSync p, StatSync p],
                timers := timers w @ [processingTime (st_size st)]\<rparr>)"
  using assms
  by (simp add: transcribeAudio_def Let_def log_fs_def existsSync_statSync)

lemma transcribeAudio_missing:
  assumes "statSync (files w) p = None"
  shows "transcribeAudio e w p = (Inl ''Audio file not found'', w\<lparr>fs_log := fs_log w @ [ExistsSync p]\<rparr>)"
  using assms
  by (simp add: transcribeAudio_def Let_def log_fs_def existsSync_statSync)

lemma convertToMp3_converted:
  assumes "ffmpeg_run e = Converted st"
  shows "convertToMp3 e w inp out
           = (Inr out, w\<lparr>fs_log := fs_log w @ [Ffmpeg inp out],
                         files := write_file (files w) out st\<rparr>)"
  using assms by (simp add: convertToMp3_def Let_def log_fs_def)

lemma transcribe_after_conversion:
  assumes "ffmpeg_run e = Converted st"
  shows "fst (transcribeAudio e (snd (convertToMp3 e w inp out)) out)
           = Inr (mock_text (random_index e) (st_size st))"
proof -
  obtain st' where s: "statSync (write_file (files w) out st) out = Some st'"
    and z: "st_size st' = st_size st"
    using statSync_write_file by blast
  show ?thesis
    by (simp add: convertToMp3_converted[OF assms] transcribeAudio_of_stat[where st = st'] s z)
qed

text \<open>
  The hypotheses hold for an upload while the generation service refuses connections.
\<close>

theorem translation_failure_is_not_fatal_witness:
  "req_file example_upload = Some \<lparr>file_path = Path UploadsDir ''7-123.wav'', originalname = ''mi_audio.wav''\<rparr>
   \<and> fst (convertToMp3 offline_env example_world (Path UploadsDir ''7-123.wav'')
            (Path AudioDir (mp3Filename Upload 1700000000000 ''1b9d6bcd-bbfd-4b2d-9b5d-ab8dfbbd4bed'')))
       = Inr (Path AudioDir (mp3Filename Upload 1700000000000 ''1b9d6bcd-bbfd-4b2d-9b5d-ab8dfbbd4bed''))
   \<and> completion_of (axios_post offline_env
          (upload_prompt ''en'' (mock_text 2 3000))) = Inl ''connect ECONNREFUSED 127.0.0.1:11434''
   \<and> fst (post_transcribe offline_env example_world example_upload)
       = Json 200 (JObj [(''transcription'', JStr (mock_text 2 3000)),
                         (''audioFile'', JStr (mp3Filename Upload 1700000000000
                                                 ''1b9d6bcd-bbfd-4b2d-9b5d-ab8dfbbd4bed'')),
                         (''translation'', JNull),
                         (''timestamp'', JStr ''2023-11-14T22:13:20.000Z''),
                         (''originalFile'', JStr ''mi_audio.wav'')])"
proof -
  let ?f = "\<lparr>file_path = Path UploadsDir ''7-123.wav'', originalname = ''mi_audio.wav''\<rparr>"
  let ?out = "Path AudioDir (mp3Filename Upload (date_now offline_env) (uuidv4 offline_env))"
  let ?c = "convertToMp3 offline_env example_world (file_path ?f) ?out"
  let ?t = "transcribeAudio offline_env (snd ?c) ?out"
  have run: "ffmpeg_run offline_env = Converted \<lparr>st_size = 3000, st_birthtime = 1700000000050,
                               st_mtime = 1700000000090\<rparr>"
    by (simp add: offline_env_def example_env_def)
  have f: "req_file example_upload = Some ?f" by (simp add: example_upload_def)
  have c1: "fst ?c = Inr ?out" by (simp add: convertToMp3_converted[OF run])
  then have conv: "?c = (Inr ?out, snd ?c)" by (metis prod.collapse)
  have t1: "fst ?t = Inr (mock_text 2 3000)"
    using transcribe_after_conversion[OF run, of example_world "file_path ?f" ?out]
    by (simp add: offline_env_def example_env_def)
  then have tr: "?t = (Inr (mock_text 2 3000), snd ?t)" by (metis prod.collapse)
  have fail: "completion_of (axios_post offline_env
                 (upload_prompt (to_string (with_default (body_targetLanguage example_upload) (JStr ''en'')))
                    (mock_text 2 3000))) = Inl ''connect ECONNREFUSED 127.0.0.1:11434''"
    by (simp add: offline_env_def example_env_def completion_of_def)
  have env: "date_now offline_env = 1700000000000"
    "uuidv4 offline_env = ''1b9d6bcd-bbfd-4b2d-9b5d-ab8dfbbd4bed''"
    "iso_clock offline_env 0 = ''2023-11-14T22:13:20.000Z''"
    by (simp_all add: offline_env_def example_env_def)
  have tl: "to_string (with_default (body_targetLanguage example_upload) (JStr ''en'')) = ''en''"
    by (simp add: example_upload_def with_default_def)
  from translation_failure_is_not_fatal[OF f conv tr fail] f c1 fail
  show ?thesis by (simp add: env tl)
qed

lemma post_transcribe_success:
  assumes "req_file req = Some f"
    and "convertToMp3 e w (file_path f)
           (Path AudioDir (mp3Filename Upload (date_now e) (uuidv4 e))) = (Inr p, w1)"
    and "transcribeAudio e w1 (Path AudioDir (mp3Filename Upload (date_now e) (uuidv4 e)))
           = (Inr text, w2)"
  shows "post_transcribe e w req
           = (Json 200 (JObj [(''transcription'', JStr text),
                              (''audioFile'', JStr (mp3Filename Upload (date_now e) (uuidv4 e))),
                              (''translation'',
                                 fst (upload_translation e w2
                                        (with_default (body_targetLanguage req) (JStr ''en'')) text)),
                              (''timestamp'', JStr (iso_clock e 0)),
                              (''originalFile'', JStr (originalname f))]),
              cleanup e (snd (upload_translation e w2
                                (with_default (body_targetLanguage req) (JStr ''en'')) text))
                (file_path f))"
  using assms by (auto simp: post_transcribe_def Let_def split: prod.splits)

lemma posted_convertToMp3: "posted (snd (convertToMp3 e w inp out)) = posted w"
  by (simp add: convertToMp3_def Let_def log_fs_def split: conversion.splits option.splits)

lemma posted_transcribeAudio: "posted (snd (transcribeAudio e w p)) = posted w"
  by (simp add: transcribeAudio_def Let_def log_fs_def split: option.splits)

lemma posted_cleanup: "posted (cleanup e w p) = posted w"
  by (simp add: cleanup_def Let_def log_fs_def split: option.splits)

lemma posted_upload_translation:
  "posted (snd (upload_translation e w lang text))
     = posted w @ (if truthy (Some lang) \<and> lang \<noteq> JStr ''auto'' \<and> trim text \<noteq> []
                   then [upload_prompt (to_string lang) text] else [])"
  by (simp add: upload_translation_def Let_def split: sum.splits)

lemma upload_translation_skipped:
  "\<not> (truthy (Some lang) \<and> lang \<noteq> JStr ''auto'' \<and> trim text \<noteq> [])
   \<Longrightarrow> upload_translation e w lang text = (JNull, w)"
  by (auto simp: upload_translation_def)

text \<open>
  C10, as amended. On the upload route, after a successful conversion and transcription,
  the generation service is called exactly when the target language, which is
  \<open>en\<close> when the field is absent, is truthy and not \<open>auto\<close> and the trimmed
  transcript is not empty. An empty or \<open>auto\<close> target language, or a blank transcript,
  leaves \<open>translation: null\<close>; an absent target language does not.
\<close>

theorem upload_translation_gate:
  assumes f: "req_file req = Some f"
    and conv: "convertToMp3 e w (file_path f)
                 (Path AudioDir (mp3Filename Upload (date_now e) (uuidv4 e))) = (Inr p, w1)"
    and tr: "transcribeAudio e w1 (Path AudioDir (mp3Filename Upload (date_now e) (uuidv4 e)))
               = (Inr text, w2)"
  shows "posted (snd (post_transcribe e w req))
           = posted w @
               (case body_targetLanguage req of
                  None \<Rightarrow> if trim text \<noteq> [] then [upload_prompt ''en'' text] else []
                | Some lang \<Rightarrow>
                    if truthy (Some lang) \<and> lang \<noteq> JStr ''auto'' \<and> trim text \<noteq> []
                    then [upload_prompt (to_string lang) text] else [])
         \<and> ((body_targetLanguage req = Some (JStr []) \<or> body_targetLanguage req = Some (JStr ''auto'')
                \<or> trim text = []) \<longrightarrow>
              get_prop (json_body (fst (post_transcribe e w req))) ''translation'' = Some JNull)"
proof -
  have w1: "posted w1 = posted w" using posted_convertToMp3[of e w] conv by (metis snd_conv)
  have w2: "posted w2 = posted w1" using posted_transcribeAudio[of e w1] tr by (metis snd_conv)
  note s = post_transcribe_success[OF f conv tr]
  have a: "posted (snd (post_transcribe e w req))
           = posted w @
               (case body_targetLanguage req of
                  None \<Rightarrow> if trim text \<noteq> [] then [upload_prompt ''en'' text] else []
                | Some lang \<Rightarrow>
                    if truthy (Some lang) \<and> lang \<noteq> JStr ''auto'' \<and> trim text \<noteq> []
                    then [upload_prompt (to_string lang) text] else [])"
    by (simp add: s posted_cleanup posted_upload_translation w1 w2 with_default_def
             split: option.splits)
  have b: "(body_targetLanguage req = Some (JStr []) \<or> body_targetLanguage req = Some (JStr ''auto'')
                \<or> trim text = []) \<longrightarrow>
              get_prop (json_body (fst (post_transcribe e w req))) ''translation'' = Some JNull"
  proof
    assume h: "body_targetLanguage req = Some (JStr []) \<or> body_targetLanguage req = Some (JStr ''auto'')
                \<or> trim text = []"
    let ?lang = "with_default (body_targetLanguage req) (JStr ''en'')"
    from h have "\<not> (truthy (Some ?lang) \<and> ?lang \<noteq> JStr ''auto'' \<and> trim text \<noteq> [])"
      by (auto simp: with_default_def)
    then have "upload_translation e w2 ?lang text = (JNull, w2)" by (rule upload_translation_skipped)
    then show "get_prop (json_body (fst (post_transcribe e w req))) ''translation'' = Some JNull"
      by (simp add: s json_body_def)
  qed
  from a b show ?thesis by (rule conjI)
qed

lemma trim_mock_text: "trim (mock_text 2 3000) \<noteq> []"
  by (simp add: mock_text_def element_text_def mockTranscriptions_def trim_def is_space_def
        fileSizeKB_def digits.simps digit_char_def)

lemma trim_completion: "trim '' Audio transcribed. '' = ''Audio transcribed.''"
  by (simp add: trim_def is_space_def)

text \<open>
  C10 as stated fails: an upload without a \<open>targetLanguage\<close> field is translated to
  \<open>en\<close>, and its answer carries a translation.
\<close>

theorem absent_target_language_counterexample:
  "body_targetLanguage example_upload = None
   \<and> get_prop (json_body (fst (post_transcribe example_env example_world example_upload)))
        ''translation''
       = Some (JObj [(''translatedText'', JStr ''Audio transcribed.''),
                     (''targetLanguage'', JStr ''en'')])
   \<and> posted (snd (post_transcribe example_env example_world example_upload))
       = [upload_prompt ''en'' (mock_text 2 3000)]"
proof -
  let ?f = "\<lparr>file_path = Path UploadsDir ''7-123.wav'', originalname = ''mi_audio.wav''\<rparr>"
  let ?out = "Path AudioDir (mp3Filename Upload (date_now example_env) (uuidv4 example_env))"
  let ?c = "convertToMp3 example_env example_world (file_path ?f) ?out"
  let ?t = "transcribeAudio example_env (snd ?c) ?out"
  have run: "ffmpeg_run example_env = Converted \<lparr>st_size = 3000, st_birthtime = 1700000000050,
                               st_mtime = 1700000000090\<rparr>"
    by (simp add: example_env_def)
  have f: "req_file example_upload = Some ?f" by (simp add: example_upload_def)
  have none: "body_targetLanguage example_upload = None" by (simp add: example_upload_def)
  have "fst ?c = Inr ?out" by (simp add: convertToMp3_converted[OF run])
  then have conv: "?c = (Inr ?out, snd ?c)" by (metis prod.collapse)
  have "fst ?t = Inr (mock_text 2 3000)"
    using transcribe_after_conversion[OF run, of example_world "file_path ?f" ?out]
    by (simp add: example_env_def)
  then have tr: "?t = (Inr (mock_text 2 3000), snd ?t)" by (metis prod.collapse)
  note s = post_transcribe_success[OF f conv tr]
  have empty: "posted example_world = []" by (simp add: example_world_def)
  have post: "axios_post example_env (upload_prompt ''en'' (mock_text 2 3000))
                = Inr (JObj [(''response'', JStr '' Audio transcribed. '')])"
    by (simp add: example_env_def)
  have tr_res: "\<And>w. fst (upload_translation example_env w (JStr ''en'') (mock_text 2 3000))
                  = JObj [(''translatedText'', JStr ''Audio transcribed.''),
                          (''targetLanguage'', JStr ''en'')]"
    by (simp add: upload_translation_def Let_def trim_mock_text post completion_of_def
          trim_completion)
  have a: "get_prop (json_body (fst (post_transcribe example_env example_world example_upload)))
        ''translation''
       = Some (JObj [(''translatedText'', JStr ''Audio transcribed.''),
                     (''targetLanguage'', JStr ''en'')])"
    by (simp add: s json_body_def none with_default_def tr_res)
  have b: "posted (snd (post_transcribe example_env example_world example_upload))
       = [upload_prompt ''en'' (mock_text 2 3000)]"
    by (simp add: s none with_default_def posted_cleanup posted_upload_translation
          posted_transcribeAudio posted_convertToMp3 trim_mock_text empty)
  from none a b show ?thesis by (intro conjI)
qed

text \<open>
  The hypotheses hold for an upload that asks for the target language \<open>auto\<close>.
\<close>

theorem upload_translation_gate_witness:
  "req_file auto_upload
     = Some \<lparr>file_path = Path UploadsDir ''7-123.wav'', originalname = ''mi_audio.wav''\<rparr>
   \<and> body_targetLanguage auto_upload = Some (JStr ''auto'')
   \<and> posted (snd (post_transcribe example_env example_world auto_upload)) = []
   \<and> get_prop (json_body (fst (post_transcribe example_env example_world auto_upload)))
        ''translation'' = Some JNull"
proof -
  let ?f = "\<lparr>file_path = Path UploadsDir ''7-123.wav'', originalname = ''mi_audio.wav''\<rparr>"
  let ?out = "Path AudioDir (mp3Filename Upload (date_now example_env) (uuidv4 example_env))"
  let ?c = "convertToMp3 example_env example_world (file_path ?f) ?out"
  let ?t = "transcribeAudio example_env (snd ?c) ?out"
  have run: "ffmpeg_run example_env = Converted \<lparr>st_size = 3000, st_birthtime = 1700000000050,
                               st_mtime = 1700000000090\<rparr>"
    by (simp add: example_env_def)
  have f: "req_file auto_upload = Some ?f" by (simp add: auto_upload_def example_upload_def)
  have lang: "body_targetLanguage auto_upload = Some (JStr ''auto'')"
    by (simp add: auto_upload_def)
  have "fst ?c = Inr ?out" by (simp add: convertToMp3_converted[OF run])
  then have conv: "?c = (Inr ?out, snd ?c)" by (metis prod.collapse)
  have "fst ?t = Inr (mock_text 2 3000)"
    using transcribe_after_conversion[OF run, of example_world "file_path ?f" ?out]
    by (simp add: example_env_def)
  then have tr: "?t = (Inr (mock_text 2 3000), snd ?t)" by (metis prod.collapse)
  have empty: "posted example_world = []" by (simp add: example_world_def)
  from upload_translation_gate[OF f conv tr] f lang show ?thesis by (simp add: empty)
qed


section \<open>The streaming handler\<close>

lemma sent_saveAudioChunk: "sent (snd (saveAudioChunk e w a n)) = sent w"
  by (simp add: saveAudioChunk_def Let_def log_fs_def split: jsval.splits option.splits)

lemma sent_convertToMp3: "sent (snd (convertToMp3 e w inp out)) = sent w"
  by (simp add: convertToMp3_def Let_def log_fs_def split: conversion.splits option.splits)

lemma sent_transcribeAudio: "sent (snd (transcribeAudio e w p)) = sent w"
  by (simp add: transcribeAudio_def Let_def log_fs_def split: option.splits)

lemma sent_cleanup: "sent (cleanup e w p) = sent w"
  by (simp add: cleanup_def Let_def log_fs_def split: option.splits)

lemma sent_transcription_failed: "sent (transcription_failed msg w) = sent w @ [error_message (''Transcription failed: '' @ msg)]"
  by (simp add: transcription_failed_def ws_send_def)

lemma error_message_fields:
  "get_prop (error_message msg) ''sessionId'' = None"
  "get_prop (error_message msg) ''type'' = Some (JStr ''error'')"
  by (simp_all add: error_message_def)

lemma sent_handleTranslation:
  "\<exists>m. sent (handleTranslation e w d) = sent w @ [m] \<and> untagged m"
proof (cases "d = JNull")
  case True
  then show ?thesis
    by (simp add: handleTranslation_def ws_send_def untagged_def error_message_fields)
next
  case False
  show ?thesis
  proof (cases "completion_of (axios_post e
                  (translate_prompt
                     (to_string (with_default (get_prop d ''sourceLanguage'') (JStr ''auto'')))
                     (to_string (with_default (get_prop d ''targetLanguage'') (JStr ''en'')))
                     (to_string_opt (get_prop d ''text''))))")
    case (Inl msg)
    with False show ?thesis
      by (simp add: handleTranslation_def Let_def ws_send_def untagged_def error_message_fields)
  next
    case (Inr translation)
    with False show ?thesis
      by (cases "get_prop d ''text''")
         (simp_all add: handleTranslation_def Let_def ws_send_def untagged_def)
  qed
qed

lemma handleAudioChunk_steps:
  assumes "data \<noteq> JNull" and "get_prop data ''audioData'' = Some audio" and "truthy (Some audio)"
  shows "handleAudioChunk e w data =
     (case saveAudioChunk e w audio (tempFilename (date_now e) (uuidv4 e)) of
        (Inl msg, w1) \<Rightarrow> transcription_failed msg w1
      | (Inr tempAudioPath, w1) \<Rightarrow>
          (case convertToMp3 e w1 tempAudioPath
                  (Path AudioDir (mp3Filename Streaming (date_now e) (uuidv4 e))) of
             (Inl msg, w2) \<Rightarrow> transcription_failed msg w2
           | (Inr converted, w2) \<Rightarrow>
               (case transcribeAudio e w2
                       (Path AudioDir (mp3Filename Streaming (date_now e) (uuidv4 e))) of
                  (Inl msg, w3) \<Rightarrow> transcription_failed msg w3
                | (Inr text, w3) \<Rightarrow>
                    cleanup e
                      (if trim text \<noteq> []
                       then handleTranslation e (ws_send (transcription_message e w3 data text) w3)
                              (JObj [(''text'', JStr text),
                                     (''targetLanguage'',
                                        with_default (get_prop data ''targetLanguage'') (JStr ''en'')),
                                     (''sessionId'',
                                        js_or (get_prop data ''sessionId'') (JStr (uuidv4 e)))])
                       else ws_send (transcription_message e w3 data text) w3)
                      tempAudioPath)))"
  using assms
  by (simp add: handleAudioChunk_def Let_def transcription_message_def
        split: prod.splits sum.splits)

lemma handleAudioChunk_no_audio:
  assumes "data = JNull \<or> \<not> truthy (get_prop data ''audioData'')"
  shows "\<exists>msg. handleAudioChunk e w data = transcription_failed msg w"
  using assms
  by (cases "get_prop data ''audioData''") (auto simp: handleAudioChunk_def Let_def)

lemma transcription_message_fields:
  "get_prop (transcription_message e w data text) ''sessionId''
     = Some (js_or (get_prop data ''sessionId'') (JStr (uuidv4 e)))"
  "get_prop (transcription_message e w data text) ''type'' = Some (JStr ''transcription'')"
  by (simp_all add: transcription_message_def)

lemma well_tagged_error: "well_tagged e data (error_message msg)"
  by (simp add: well_tagged_def error_message_fields)

lemma well_tagged_untagged: "untagged m \<Longrightarrow> well_tagged e data m"
  by (simp add: well_tagged_def untagged_def)

lemma well_tagged_transcription: "well_tagged e data (transcription_message e w data text)"
  by (simp add: well_tagged_def transcription_message_fields)

lemma sent_ws_send: "sent (ws_send m w) = sent w @ [m]"
  by (simp add: ws_send_def)

lemma sent_handleAudioChunk:
  "\<exists>ms. sent (handleAudioChunk e w data) = sent w @ ms \<and> (\<forall>m \<in> set ms. well_tagged e data m)"
proof (cases "data = JNull \<or> \<not> truthy (get_prop data ''audioData'')")
  case True
  then obtain msg where "handleAudioChunk e w data = transcription_failed msg w"
    using handleAudioChunk_no_audio by blast
  then have "sent (handleAudioChunk e w data) = sent w @ [error_message (''Transcription failed: '' @ msg)]"
    by (simp add: sent_transcription_failed)
  then show ?thesis using well_tagged_error by fastforce
next
  case False
  then obtain audio where d: "data \<noteq> JNull" and a: "get_prop data ''audioData'' = Some audio"
    and t: "truthy (Some audio)"
    by (cases "get_prop data ''audioData''") auto
  note steps = handleAudioChunk_steps[OF d a t, of e w]
  let ?mp3 = "Path AudioDir (mp3Filename Streaming (date_now e) (uuidv4 e))"
  obtain r1 w1 where s1: "saveAudioChunk e w audio (tempFilename (date_now e) (uuidv4 e)) = (r1, w1)"
    by (cases "saveAudioChunk e w audio (tempFilename (date_now e) (uuidv4 e))")
  have w1: "sent w1 = sent w" using sent_saveAudioChunk[of e w audio "tempFilename (date_now e) (uuidv4 e)"] s1 by simp
  show ?thesis
  proof (cases r1)
    case (Inl msg)
    then have "sent (handleAudioChunk e w data) = sent w @ [error_message (''Transcription failed: '' @ msg)]"
      by (simp add: steps s1 sent_transcription_failed w1)
    then show ?thesis using well_tagged_error by fastforce
  next
    case (Inr tp)
    note r1 = this
    obtain r2 w2 where s2: "convertToMp3 e w1 tp ?mp3 = (r2, w2)" by (cases "convertToMp3 e w1 tp ?mp3")
    have w2: "sent w2 = sent w" using sent_convertToMp3[of e w1 tp ?mp3] s2 w1 by simp
    show ?thesis
    proof (cases r2)
      case (Inl msg)
      then have "sent (handleAudioChunk e w data) = sent w @ [error_message (''Transcription failed: '' @ msg)]"
        using r1 by (simp add: steps s1 s2 sent_transcription_failed w2)
      then show ?thesis using well_tagged_error by fastforce
    next
      case (Inr converted)
      note r2 = this
      obtain r3 w3 where s3: "transcribeAudio e w2 ?mp3 = (r3, w3)" by (cases "transcribeAudio e w2 ?mp3")
      have w3: "sent w3 = sent w" using sent_transcribeAudio[of e w2 ?mp3] s3 w2 by simp
      show ?thesis
      proof (cases r3)
        case (Inl msg)
        then have "sent (handleAudioChunk e w data) = sent w @ [error_message (''Transcription failed: '' @ msg)]"
          using r1 r2 by (simp add: steps s1 s2 s3 sent_transcription_failed w3)
        then show ?thesis using well_tagged_error by fastforce
      next
        case (Inr transcript)
        note r3 = this
        let ?T = "transcription_message e w3 data transcript"
        show ?thesis
        proof (cases "trim transcript \<noteq> []")
          case True
          obtain m where m: "sent (handleTranslation e (ws_send ?T w3)
                              (JObj [(''text'', JStr transcript),
                                     (''targetLanguage'',
                                        with_default (get_prop data ''targetLanguage'') (JStr ''en'')),
                                     (''sessionId'',
                                        js_or (get_prop data ''sessionId'') (JStr (uuidv4 e)))]))
                        = sent (ws_send ?T w3) @ [m]" and u: "untagged m"
            using sent_handleTranslation by blast
          have "sent (handleAudioChunk e w data) = sent w @ [?T, m]"
            using r1 r2 r3 True by (simp add: steps s1 s2 s3 sent_cleanup m sent_ws_send w3)
          moreover have "\<forall>x \<in> set [?T, m]. well_tagged e data x"
            using well_tagged_transcription well_tagged_untagged[OF u] by simp
          ultimately show ?thesis by blast
        next
          case False
          have "sent (handleAudioChunk e w data) = sent w @ [?T]"
            using r1 r2 r3 False by (simp add: steps s1 s2 s3 sent_cleanup sent_ws_send w3)
          moreover have "\<forall>x \<in> set [?T]. well_tagged e data x"
            using well_tagged_transcription by simp
          ultimately show ?thesis by blast
        qed
      qed
    qed
  qed
qed

lemma saveAudioChunk_written:
  assumes "writeFile_error e = None"
  shows "saveAudioChunk e w (JStr s) n
           = (Inr (Path AudioDir n),
              w\<lparr>fs_log := fs_log w @ [WriteFile (Path AudioDir n)],
                files := write_file (files w) (Path AudioDir n)
                           \<lparr>st_size = buffer_length e (strip_data_url s),
                            st_birthtime = fs_clock e, st_mtime = fs_clock e\<rparr>\<rparr>)"
  using assms by (simp add: saveAudioChunk_def Let_def log_fs_def)

lemma handleTranslation_answered:
  assumes "d \<noteq> JNull" and "completion_of (axios_post e
             (translate_prompt (to_string (with_default (get_prop d ''sourceLanguage'') (JStr ''auto'')))
                (to_string (with_default (get_prop d ''targetLanguage'') (JStr ''en'')))
                (to_string_opt (get_prop d ''text'')))) = Inr translation"
  shows "sent (handleTranslation e w d)
           = sent w @ [JObj (obj [(''type'', Some (JStr ''translation'')),
                                  (''originalText'', get_prop d ''text''),
                                  (''translatedText'', Some (JStr translation)),
                                  (''sourceLanguage'',
                                     Some (with_default (get_prop d ''sourceLanguage'') (JStr ''auto''))),
                                  (''targetLanguage'',
                                     Some (with_default (get_prop d ''targetLanguage'') (JStr ''en''))),
                                  (''timestamp'', Some (JStr (iso_clock e (length (sent w)))))])]"
  using assms by (simp add: handleTranslation_def Let_def ws_send_def)

lemma example_completion:
  "completion_of (axios_post example_env prompt) = Inr ''Audio transcribed.''"
  by (simp add: example_env_def completion_of_def trim_completion)

lemma example_chunk_fields:
  "example_chunk \<noteq> JNull"
  "get_prop example_chunk ''audioData'' = Some (JStr ''data:audio/wav;base64,UklGRnoGAABXQVZF'')"
  "get_prop example_chunk ''sessionId'' = Some (JStr ''my-session-123'')"
  "get_prop example_chunk ''targetLanguage'' = Some (JStr ''en'')"
  by (simp_all add: example_chunk_def)

lemma example_env_fields:
  "writeFile_error example_env = None"
  "ffmpeg_run example_env = Converted \<lparr>st_size = 3000, st_birthtime = 1700000000050,
                               st_mtime = 1700000000090\<rparr>"
  "random_index example_env = 2"
  "unlink_error example_env = None"
  by (simp_all add: example_env_def)

lemma example_streaming_run:
  "handleAudioChunk example_env example_world example_chunk
     = cleanup example_env
         (handleTranslation example_env
            (ws_send (transcription_message example_env example_transcribed example_chunk
                        (mock_text 2 3000)) example_transcribed)
            (JObj [(''text'', JStr (mock_text 2 3000)),
                   (''targetLanguage'', JStr ''en''),
                   (''sessionId'', JStr ''my-session-123'')]))
         (Path AudioDir (tempFilename (date_now example_env) (uuidv4 example_env)))"
proof -
  let ?e = example_env and ?w = example_world
  let ?tmp = "tempFilename (date_now ?e) (uuidv4 ?e)"
  let ?mp3 = "Path AudioDir (mp3Filename Streaming (date_now ?e) (uuidv4 ?e))"
  let ?s1 = "saveAudioChunk ?e ?w (JStr ''data:audio/wav;base64,UklGRnoGAABXQVZF'') ?tmp"
  let ?s2 = "convertToMp3 ?e (snd ?s1) (Path AudioDir ?tmp) ?mp3"
  let ?s3 = "transcribeAudio ?e (snd ?s2) ?mp3"
  have s1: "?s1 = (Inr (Path AudioDir ?tmp), snd ?s1)"
    by (simp add: saveAudioChunk_written[OF example_env_fields(1)])
  have s2: "?s2 = (Inr ?mp3, snd ?s2)"
    by (simp add: convertToMp3_converted[OF example_env_fields(2)])
  have "fst ?s3 = Inr (mock_text 2 3000)"
    using transcribe_after_conversion[OF example_env_fields(2), of "snd ?s1" "Path AudioDir ?tmp" ?mp3]
    by (simp add: example_env_fields)
  then have s3: "?s3 = (Inr (mock_text 2 3000), snd ?s3)" by (metis prod.collapse)
  have t: "truthy (Some (JStr ''data:audio/wav;base64,UklGRnoGAABXQVZF''))" by simp
  show ?thesis
    unfolding example_transcribed_def
    apply (subst handleAudioChunk_steps[OF example_chunk_fields(1) example_chunk_fields(2) t])
    apply (subst s1)
    apply (simp only: prod.case sum.case)
    apply (subst s2)
    apply (simp only: prod.case sum.case)
    apply (subst s3)
    apply (simp only: prod.case sum.case)
    apply (simp add: trim_mock_text example_chunk_fields with_default_def js_or_def)
    done
qed

lemma example_transcribed_sent: "sent example_transcribed = []"
  by (simp add: example_transcribed_def sent_transcribeAudio sent_convertToMp3 sent_saveAudioChunk
        example_world_def)

text \<open>
  C8. The streaming handler tags the transcription notification with
  \<open>sessionId || uniqueId\<close> and passes the same value to \<open>handleTranslation\<close>, which
  does not read it: the translation notification that follows has the fields
  \<open>type\<close>, \<open>originalText\<close>, \<open>translatedText\<close>, \<open>sourceLanguage\<close>,
  \<open>targetLanguage\<close> and \<open>timestamp\<close>, and no \<open>sessionId\<close>. The outbox of a job
  submitted with \<open>sessionId: my-session-123\<close>:
\<close>

theorem translation_notification_drops_session:
  "sent (handleAudioChunk example_env example_world example_chunk)
     = [JObj [(''type'', JStr ''transcription''),
              (''text'', JStr (mock_text 2 3000)),
              (''audioFile'',
                 JStr (mp3Filename Streaming 1700000000000 ''1b9d6bcd-bbfd-4b2d-9b5d-ab8dfbbd4bed'')),
              (''timestamp'', JStr ''2023-11-14T22:13:20.000Z''),
              (''sessionId'', JStr ''my-session-123'')],
        JObj [(''type'', JStr ''translation''),
              (''originalText'', JStr (mock_text 2 3000)),
              (''translatedText'', JStr ''Audio transcribed.''),
              (''sourceLanguage'', JStr ''auto''),
              (''targetLanguage'', JStr ''en''),
              (''timestamp'', JStr ''2023-11-14T22:13:20.000Z'')]]
   \<and> get_prop (last (sent (handleAudioChunk example_env example_world example_chunk)))
        ''sessionId'' = None"
proof -
  note run = example_streaming_run and w3 = example_transcribed_sent
  have d: "JObj [(''text'', JStr (mock_text 2 3000)), (''targetLanguage'', JStr ''en''),
                 (''sessionId'', JStr ''my-session-123'')] \<noteq> JNull" by simp
  have env: "date_now example_env = 1700000000000"
    "uuidv4 example_env = ''1b9d6bcd-bbfd-4b2d-9b5d-ab8dfbbd4bed''"
    "iso_clock example_env k = ''2023-11-14T22:13:20.000Z''" for k
    by (simp_all add: example_env_def)
  have out: "sent (handleAudioChunk example_env example_world example_chunk)
     = [JObj [(''type'', JStr ''transcription''),
              (''text'', JStr (mock_text 2 3000)),
              (''audioFile'',
                 JStr (mp3Filename Streaming 1700000000000 ''1b9d6bcd-bbfd-4b2d-9b5d-ab8dfbbd4bed'')),
              (''timestamp'', JStr ''2023-11-14T22:13:20.000Z''),
              (''sessionId'', JStr ''my-session-123'')],
        JObj [(''type'', JStr ''translation''),
              (''originalText'', JStr (mock_text 2 3000)),
              (''translatedText'', JStr ''Audio transcribed.''),
              (''sourceLanguage'', JStr ''auto''),
              (''targetLanguage'', JStr ''en''),
              (''timestamp'', JStr ''2023-11-14T22:13:20.000Z'')]]"
    by (simp add: run sent_cleanup handleTranslation_answered[OF d example_completion]
          sent_ws_send w3 transcription_message_def example_chunk_fields js_or_def
          with_default_def env)
  show ?thesis by (simp add: out)
qed


section \<open>Contents of the persistent directory\<close>

lemma map_fst_overwrite:
  "map fst (map (\<lambda>(k, v). if k = n then (k, g v) else (k, v)) xs) = map fst xs"
  by (induction xs) auto

lemma names_write_file:
  "set (readdirSync (write_file fs (Path d n) st) d')
     = (if d' = d then insert n (set (readdirSync fs d)) else set (readdirSync fs d'))"
proof (cases "map_of (fs d) n")
  case None
  then show ?thesis by (auto simp: readdirSync_def write_file_def)
next
  case (Some v)
  then have mem: "n \<in> set (map fst (fs d))" using map_of_eq_None_iff[of "fs d" n] by simp
  have keys: "map fst (map (\<lambda>(k, v). if k = n then (k, st\<lparr>st_birthtime := st_birthtime v\<rparr>)
                                      else (k, v)) (fs d)) = map fst (fs d)"
    by (rule map_fst_overwrite[of n "\<lambda>v. st\<lparr>st_birthtime := st_birthtime v\<rparr>" "fs d"])
  from mem have ins: "insert n (set (map fst (fs d))) = set (map fst (fs d))" by (rule insert_absorb)
  show ?thesis
    by (simp add: readdirSync_def write_file_def Some keys ins del: set_map map_map)
qed

lemma names_remove_file:
  "set (readdirSync (remove_file fs (Path d n)) d')
     = (if d' = d then set (readdirSync fs d) - {n} else set (readdirSync fs d'))"
  by (auto simp: readdirSync_def remove_file_def)

lemma names_saveAudioChunk:
  "set (readdirSync (files (snd (saveAudioChunk e w a n))) AudioDir)
     \<subseteq> insert n (set (readdirSync (files w) AudioDir))"
  by (auto simp: saveAudioChunk_def Let_def log_fs_def names_write_file
           split: jsval.splits option.splits)

lemma names_convertToMp3:
  "set (readdirSync (files (snd (convertToMp3 e w inp (Path AudioDir n)))) AudioDir)
     \<subseteq> insert n (set (readdirSync (files w) AudioDir))"
  by (auto simp: convertToMp3_def Let_def log_fs_def names_write_file
           split: conversion.splits option.splits)

lemma files_transcribeAudio: "files (snd (transcribeAudio e w p)) = files w"
  by (simp add: transcribeAudio_def Let_def log_fs_def split: option.splits)

lemma files_handleTranslation: "files (handleTranslation e w d) = files w"
  by (simp add: handleTranslation_def Let_def ws_send_def split: sum.splits)

lemma files_ws_send: "files (ws_send m w) = files w"
  by (simp add: ws_send_def)

lemma files_transcription_failed: "files (transcription_failed msg w) = files w"
  by (simp add: transcription_failed_def ws_send_def)

lemma files_upload_translation: "files (snd (upload_translation e w lang t)) = files w"
  by (simp add: upload_translation_def Let_def split: sum.splits)

lemma names_cleanup:
  "set (readdirSync (files (cleanup e w p)) d) \<subseteq> set (readdirSync (files w) d)"
  by (cases p) (auto simp: cleanup_def Let_def log_fs_def names_remove_file split: option.splits)

lemma names_post_transcribe:
  "set (readdirSync (files (snd (post_transcribe e w req))) AudioDir)
     \<subseteq> insert (mp3Filename Upload (date_now e) (uuidv4 e)) (set (readdirSync (files w) AudioDir))"
proof (cases "req_file req")
  case None
  then show ?thesis by (auto simp: post_transcribe_def)
next
  case (Some f)
  let ?mp3 = "mp3Filename Upload (date_now e) (uuidv4 e)"
  let ?c = "convertToMp3 e w (file_path f) (Path AudioDir ?mp3)"
  let ?goal = "insert ?mp3 (set (readdirSync (files w) AudioDir))"
  have c: "set (readdirSync (files (snd ?c)) AudioDir) \<subseteq> ?goal" by (rule names_convertToMp3)
  obtain r1 w1 where s1: "?c = (r1, w1)" by (cases ?c)
  with c have w1: "set (readdirSync (files w1) AudioDir) \<subseteq> ?goal" by simp
  show ?thesis
  proof (cases r1)
    case (Inl msg)
    then have "snd (post_transcribe e w req) = cleanup e w1 (file_path f)"
      by (simp add: post_transcribe_def Let_def Some s1)
    with w1 names_cleanup[of e w1 "file_path f" AudioDir] show ?thesis by auto
  next
    case (Inr p)
    note r1 = this
    obtain r2 w2 where s2: "transcribeAudio e w1 (Path AudioDir ?mp3) = (r2, w2)"
      by (cases "transcribeAudio e w1 (Path AudioDir ?mp3)")
    then have f2: "files w2 = files w1"
      using files_transcribeAudio[of e w1 "Path AudioDir ?mp3"] by simp
    show ?thesis
    proof (cases r2)
      case (Inl msg)
      then have "snd (post_transcribe e w req) = cleanup e w2 (file_path f)"
        by (simp add: post_transcribe_def Let_def Some s1 r1 s2)
      with w1 f2 names_cleanup[of e w2 "file_path f" AudioDir] show ?thesis by auto
    next
      case (Inr transcript)
      let ?u = "upload_translation e w2 (with_default (body_targetLanguage req) (JStr ''en'')) transcript"
      from Inr have "snd (post_transcribe e w req) = cleanup e (snd ?u) (file_path f)"
        by (simp add: post_transcribe_def Let_def Some s1 r1 s2 split: prod.splits)
      moreover have "files (snd ?u) = files w1" by (simp add: files_upload_translation f2)
      ultimately show ?thesis
        using w1 names_cleanup[of e "snd ?u" "file_path f" AudioDir] by auto
    qed
  qed
qed

lemma names_handleAudioChunk:
  "set (readdirSync (files (handleAudioChunk e w data)) AudioDir)
     \<subseteq> insert (tempFilename (date_now e) (uuidv4 e))
          (insert (mp3Filename Streaming (date_now e) (uuidv4 e))
             (set (readdirSync (files w) AudioDir)))"
proof (cases "data = JNull \<or> \<not> truthy (get_prop data ''audioData'')")
  case True
  then obtain msg where "handleAudioChunk e w data = transcription_failed msg w"
    using handleAudioChunk_no_audio by blast
  then show ?thesis by (auto simp: files_transcription_failed)
next
  case False
  then obtain audio where d: "data \<noteq> JNull" and a: "get_prop data ''audioData'' = Some audio"
    and t: "truthy (Some audio)"
    by (cases "get_prop data ''audioData''") auto
  note steps = handleAudioChunk_steps[OF d a t, of e w]
  let ?tmp = "tempFilename (date_now e) (uuidv4 e)"
  let ?mp3n = "mp3Filename Streaming (date_now e) (uuidv4 e)"
  let ?mp3 = "Path AudioDir ?mp3n"
  let ?N = "set (readdirSync (files w) AudioDir)"
  obtain r1 w1 where s1: "saveAudioChunk e w audio ?tmp = (r1, w1)"
    by (cases "saveAudioChunk e w audio ?tmp")
  have n1: "set (readdirSync (files w1) AudioDir) \<subseteq> insert ?tmp ?N"
    using names_saveAudioChunk[of e w audio ?tmp] s1 by simp
  show ?thesis
  proof (cases r1)
    case (Inl msg)
    then have "files (handleAudioChunk e w data) = files w1"
      by (simp add: steps s1 files_transcription_failed)
    with n1 show ?thesis by auto
  next
    case (Inr tp)
    note r1 = this
    obtain r2 w2 where s2: "convertToMp3 e w1 tp ?mp3 = (r2, w2)" by (cases "convertToMp3 e w1 tp ?mp3")
    have "set (readdirSync (files w2) AudioDir) \<subseteq> insert ?mp3n (set (readdirSync (files w1) AudioDir))"
      using names_convertToMp3[of e w1 tp ?mp3n] s2 by simp
    with n1 have n2: "set (readdirSync (files w2) AudioDir) \<subseteq> insert ?tmp (insert ?mp3n ?N)"
      by auto
    show ?thesis
    proof (cases r2)
      case (Inl msg)
      then have "files (handleAudioChunk e w data) = files w2"
        using r1 by (simp add: steps s1 s2 files_transcription_failed)
      with n2 show ?thesis by simp
    next
      case (Inr converted)
      note r2 = this
      obtain r3 w3 where s3: "transcribeAudio e w2 ?mp3 = (r3, w3)" by (cases "transcribeAudio e w2 ?mp3")
      have f3: "files w3 = files w2" using files_transcribeAudio[of e w2 ?mp3] s3 by simp
      show ?thesis
      proof (cases r3)
        case (Inl msg)
        then have "files (handleAudioChunk e w data) = files w2"
          using r1 r2 by (simp add: steps s1 s2 s3 files_transcription_failed f3)
        with n2 show ?thesis by simp
      next
        case (Inr transcript)
        then obtain w5 where h: "handleAudioChunk e w data = cleanup e w5 tp"
          and f5: "files w5 = files w2"
          using r1 r2 by (cases "trim transcript \<noteq> []")
             (simp_all add: steps s1 s2 s3 files_handleTranslation files_ws_send f3)
        from names_cleanup[of e w5 tp AudioDir] n2 show ?thesis by (simp add: h f5)
      qed
    qed
  qed
qed

lemma cleanup_removes:
  assumes "unlink_error e = None"
  shows "\<not> existsSync (files (cleanup e w p)) p"
proof (cases p)
  case (Path d n)
  have "map_of (filter (\<lambda>(k, v). k \<noteq> n) xs) n = None" for xs :: directory
    by (induction xs) auto
  then show ?thesis using assms
    by (simp add: Path cleanup_def Let_def log_fs_def existsSync_def remove_file_def)
qed

lemma convertToMp3_failed:
  assumes "ffmpeg_run e = ConversionError msg None"
  shows "convertToMp3 e w inp out = (Inl msg, w\<lparr>fs_log := fs_log w @ [Ffmpeg inp out]\<rparr>)"
  using assms by (simp add: convertToMp3_def Let_def log_fs_def)

lemma broken_env_fields:
  "writeFile_error broken_audio_env = None"
  "ffmpeg_run broken_audio_env = ConversionError ''ffmpeg exited with code 1'' None"
  "date_now broken_audio_env = 1700000000000"
  "uuidv4 broken_audio_env = ''1b9d6bcd-bbfd-4b2d-9b5d-ab8dfbbd4bed''"
  by (simp_all add: broken_audio_env_def example_env_def)

lemma example_world_fields:
  "files example_world = example_files"
  "fs_log example_world = []"
  "sent example_world = []"
  "posted example_world = []"
  "timers example_world = []"
  by (simp_all add: example_world_def)

lemma example_env_clock:
  "fs_clock example_env = 1700000000000"
  "buffer_length example_env s = length s div 4 * 3"
  "date_now example_env = 1700000000000"
  "uuidv4 example_env = ''1b9d6bcd-bbfd-4b2d-9b5d-ab8dfbbd4bed''"
  by (simp_all add: example_env_def)

lemma existsSync_write_file: "existsSync (write_file fs p st) p"
  using statSync_write_file[of fs p st] by (auto simp: existsSync_statSync)

text \<open>
  C2. The streaming handler removes the staged file in step 6 of its \<open>try\<close> block
  only. When the conversion fails the \<open>catch\<close> sends the error and the staged file
  stays: the log of the run holds the write and the conversion and no unlink, and the
  staged file still exists afterwards.
\<close>

theorem streaming_failure_leaves_staged_file:
  "existsSync (files (handleAudioChunk broken_audio_env example_world example_chunk))
     (Path AudioDir (tempFilename 1700000000000 ''1b9d6bcd-bbfd-4b2d-9b5d-ab8dfbbd4bed''))
   \<and> fs_log (handleAudioChunk broken_audio_env example_world example_chunk)
       = [WriteFile (Path AudioDir (tempFilename 1700000000000 ''1b9d6bcd-bbfd-4b2d-9b5d-ab8dfbbd4bed'')),
          Ffmpeg (Path AudioDir (tempFilename 1700000000000 ''1b9d6bcd-bbfd-4b2d-9b5d-ab8dfbbd4bed''))
                 (Path AudioDir (mp3Filename Streaming 1700000000000
                                   ''1b9d6bcd-bbfd-4b2d-9b5d-ab8dfbbd4bed''))]
   \<and> sent (handleAudioChunk broken_audio_env example_world example_chunk)
       = [error_message ''Transcription failed: ffmpeg exited with code 1'']"
proof -
  have t: "truthy (Some (JStr ''data:audio/wav;base64,UklGRnoGAABXQVZF''))" by simp
  note steps = handleAudioChunk_steps[OF example_chunk_fields(1) example_chunk_fields(2) t,
                  of broken_audio_env example_world]
  let ?tmp = "Path AudioDir (tempFilename 1700000000000 ''1b9d6bcd-bbfd-4b2d-9b5d-ab8dfbbd4bed'')"
  let ?mp3 = "Path AudioDir (mp3Filename Streaming 1700000000000 ''1b9d6bcd-bbfd-4b2d-9b5d-ab8dfbbd4bed'')"
  let ?s1 = "saveAudioChunk broken_audio_env example_world
               (JStr ''data:audio/wav;base64,UklGRnoGAABXQVZF'')
               (tempFilename 1700000000000 ''1b9d6bcd-bbfd-4b2d-9b5d-ab8dfbbd4bed'')"
  let ?s2 = "convertToMp3 broken_audio_env (snd ?s1) ?tmp ?mp3"
  have s1: "fst ?s1 = Inr ?tmp"
    and log1: "fs_log (snd ?s1) = [WriteFile ?tmp]"
    and files1: "existsSync (files (snd ?s1)) ?tmp"
    and sent1: "sent (snd ?s1) = []"
    by (simp_all add: saveAudioChunk_written[OF broken_env_fields(1)] example_world_fields
          existsSync_write_file)
  have s2: "fst ?s2 = Inl ''ffmpeg exited with code 1''"
    and log2: "fs_log (snd ?s2) = fs_log (snd ?s1) @ [Ffmpeg ?tmp ?mp3]"
    and files2: "files (snd ?s2) = files (snd ?s1)"
    and sent2: "sent (snd ?s2) = sent (snd ?s1)"
    by (simp_all add: convertToMp3_failed[OF broken_env_fields(2)])
  from s1 have p1: "?s1 = (Inr ?tmp, snd ?s1)" by (metis prod.collapse)
  from s2 have p2: "?s2 = (Inl ''ffmpeg exited with code 1'', snd ?s2)" by (metis prod.collapse)
  have run: "handleAudioChunk broken_audio_env example_world example_chunk
      = transcription_failed ''ffmpeg exited with code 1'' (snd ?s2)"
    apply (subst steps)
    apply (simp only: broken_env_fields(3,4))
    apply (subst p1)
    apply (simp only: prod.case sum.case)
    apply (subst p2)
    apply (simp only: prod.case sum.case)
    done
  show ?thesis
    by (simp add: run transcription_failed_def ws_send_def log2 log1 files2 files1 sent2 sent1)
qed

lemma upload_releases_staged_file:
  assumes "req_file req = Some f" and "unlink_error e = None"
  shows "\<not> existsSync (files (snd (post_transcribe e w req))) (file_path f)"
proof -
  have "\<exists>w'. snd (post_transcribe e w req) = cleanup e w' (file_path f)"
    using assms(1)
    by (auto simp: post_transcribe_def Let_def split: prod.splits sum.splits)
  then show ?thesis using cleanup_removes[OF assms(2)] by auto
qed

lemma endsWith_append: "endsWith (xs @ suf) suf"
  by (simp add: endsWith_def)

lemma is_listed_tempFilename: "is_listed (tempFilename ts u)"
proof -
  have "tempFilename ts u = (''temp_'' @ digits ts @ ''_'' @ u) @ ''.wav''"
    by (simp add: tempFilename_def)
  then show ?thesis using endsWith_append[of "''temp_'' @ digits ts @ ''_'' @ u" "''.wav''"]
    by (simp add: is_listed_def)
qed

lemma is_listed_example: "is_listed ''audio_5_ab.mp3''"
  by (simp add: is_listed_def endsWith_def)

lemma matches_example_temp:
  "matches_audio_name (tempFilename 1700000000000 ''1b9d6bcd-bbfd-4b2d-9b5d-ab8dfbbd4bed'')"
  by (simp add: tempFilename_def digits.simps digit_char_def matches_audio_name_def is_name_char_def)

lemma fs_log_ws_send: "fs_log (ws_send m w) = fs_log w"
  by (simp add: ws_send_def)

lemma fs_log_handleTranslation: "fs_log (handleTranslation e w d) = fs_log w"
  by (simp add: handleTranslation_def Let_def ws_send_def split: sum.splits)

lemma fs_log_cleanup_existing:
  assumes "existsSync (files w) p"
  shows "fs_log (cleanup e w p) = fs_log w @ [ExistsSync p, Unlink p]"
  using assms by (simp add: cleanup_def Let_def log_fs_def split: option.splits)

lemma existsSync_write_file_keep:
  assumes "existsSync fs p"
  shows "existsSync (write_file fs q st) p"
proof (cases p)
  case p: (Path d n)
  show ?thesis
  proof (cases q)
    case q: (Path d' n')
    have mem1: "map_of xs n \<noteq> None \<Longrightarrow> n \<in> set (map fst xs)" for xs :: directory
      using map_of_eq_None_iff[of xs n] by auto
    have mem2: "n \<in> set (map fst xs) \<Longrightarrow> map_of xs n \<noteq> None" for xs :: directory
      using map_of_eq_None_iff[of xs n] by auto
    from assms have "map_of (fs d) n \<noteq> None" by (simp add: p existsSync_def)
    then have "n \<in> set (readdirSync fs d)" unfolding readdirSync_def by (rule mem1)
    then have "n \<in> set (readdirSync (write_file fs (Path d' n') st) d)"
      by (auto simp: names_write_file)
    then have "map_of (write_file fs (Path d' n') st d) n \<noteq> None"
      unfolding readdirSync_def by (rule mem2)
    then show ?thesis by (simp add: p q existsSync_def)
  qed
qed

lemma example_transcribed_log:
  "fs_log example_transcribed
     = [WriteFile (Path AudioDir (tempFilename (date_now example_env) (uuidv4 example_env))),
        Ffmpeg (Path AudioDir (tempFilename (date_now example_env) (uuidv4 example_env)))
               (Path AudioDir (mp3Filename Streaming (date_now example_env) (uuidv4 example_env))),
        ExistsSync (Path AudioDir (mp3Filename Streaming (date_now example_env) (uuidv4 example_env))),
        StatSync (Path AudioDir (mp3Filename Streaming (date_now example_env) (uuidv4 example_env)))]"
  and example_transcribed_staged:
  "existsSync (files example_transcribed)
     (Path AudioDir (tempFilename (date_now example_env) (uuidv4 example_env)))"
proof -
  let ?e = example_env
  let ?tmp = "Path AudioDir (tempFilename (date_now ?e) (uuidv4 ?e))"
  let ?mp3 = "Path AudioDir (mp3Filename Streaming (date_now ?e) (uuidv4 ?e))"
  let ?s1 = "saveAudioChunk ?e example_world (JStr ''data:audio/wav;base64,UklGRnoGAABXQVZF'')
               (tempFilename (date_now ?e) (uuidv4 ?e))"
  let ?s2 = "convertToMp3 ?e (snd ?s1) ?tmp ?mp3"
  let ?st = "\<lparr>st_size = 3000, st_birthtime = 1700000000050, st_mtime = 1700000000090\<rparr>"
  have log1: "fs_log (snd ?s1) = [WriteFile ?tmp]"
    and files1: "existsSync (files (snd ?s1)) ?tmp"
    by (simp_all add: saveAudioChunk_written[OF example_env_fields(1)] example_world_fields
          existsSync_write_file)
  have log2: "fs_log (snd ?s2) = [WriteFile ?tmp, Ffmpeg ?tmp ?mp3]"
    and files2: "files (snd ?s2) = write_file (files (snd ?s1)) ?mp3 ?st"
    by (simp_all add: convertToMp3_converted[OF example_env_fields(2)] log1)
  obtain st' where stat: "statSync (files (snd ?s2)) ?mp3 = Some st'"
    using statSync_write_file[of "files (snd ?s1)" ?mp3 ?st] by (auto simp: files2)
  note tr = transcribeAudio_of_stat[OF stat, of ?e]
  show "fs_log example_transcribed = [WriteFile ?tmp, Ffmpeg ?tmp ?mp3, ExistsSync ?mp3, StatSync ?mp3]"
    by (simp add: example_transcribed_def tr log2)
  have "files example_transcribed = files (snd ?s2)"
    by (simp add: example_transcribed_def tr)
  then show "existsSync (files example_transcribed) ?tmp"
    by (simp add: files2 existsSync_write_file_keep[OF files1])
qed

text \<open>
  C3. The streaming handler stages the payload, before any conversion, in the persistent
  audio directory: \<open>saveAudioChunk\<close> writes it to \<open>path.join(audioDir, filename)\<close>.
  The filesystem calls of a whole successful job begin with that write and end with the
  unlink of the same path; a listing taken after the staging step shows the staged file
  beside the stored artifact, and the download route serves it.
\<close>

theorem staged_payload_written_to_audio_directory:
  "fs_log (handleAudioChunk example_env example_world example_chunk)
     = [WriteFile (Path AudioDir (tempFilename 1700000000000 ''1b9d6bcd-bbfd-4b2d-9b5d-ab8dfbbd4bed'')),
        Ffmpeg (Path AudioDir (tempFilename 1700000000000 ''1b9d6bcd-bbfd-4b2d-9b5d-ab8dfbbd4bed''))
               (Path AudioDir (mp3Filename Streaming 1700000000000
                                 ''1b9d6bcd-bbfd-4b2d-9b5d-ab8dfbbd4bed'')),
        ExistsSync (Path AudioDir (mp3Filename Streaming 1700000000000
                                     ''1b9d6bcd-bbfd-4b2d-9b5d-ab8dfbbd4bed'')),
        StatSync (Path AudioDir (mp3Filename Streaming 1700000000000
                                   ''1b9d6bcd-bbfd-4b2d-9b5d-ab8dfbbd4bed'')),
        ExistsSync (Path AudioDir (tempFilename 1700000000000 ''1b9d6bcd-bbfd-4b2d-9b5d-ab8dfbbd4bed'')),
        Unlink (Path AudioDir (tempFilename 1700000000000 ''1b9d6bcd-bbfd-4b2d-9b5d-ab8dfbbd4bed''))]
   \<and> fst (list_audio_files
          (snd (saveAudioChunk example_env example_world
                  (JStr ''data:audio/wav;base64,UklGRnoGAABXQVZF'')
                  (tempFilename 1700000000000 ''1b9d6bcd-bbfd-4b2d-9b5d-ab8dfbbd4bed''))))
     = Listing [(tempFilename 1700000000000 ''1b9d6bcd-bbfd-4b2d-9b5d-ab8dfbbd4bed'',
                 \<lparr>st_size = 12, st_birthtime = 1700000000000, st_mtime = 1700000000000\<rparr>),
                (''audio_5_ab.mp3'', \<lparr>st_size = 2048, st_birthtime = 5, st_mtime = 6\<rparr>)]
   \<and> fst (get_audio_file
            (snd (saveAudioChunk example_env example_world
                    (JStr ''data:audio/wav;base64,UklGRnoGAABXQVZF'')
                    (tempFilename 1700000000000 ''1b9d6bcd-bbfd-4b2d-9b5d-ab8dfbbd4bed'')))
            (tempFilename 1700000000000 ''1b9d6bcd-bbfd-4b2d-9b5d-ab8dfbbd4bed''))
     = Download [(''Content-Type'', ''audio/mpeg''),
                 (''Content-Disposition'',
                    ''attachment; filename='' @ [CHR 0x22]
                      @ tempFilename 1700000000000 ''1b9d6bcd-bbfd-4b2d-9b5d-ab8dfbbd4bed''
                      @ [CHR 0x22])]
         (Path AudioDir (tempFilename 1700000000000 ''1b9d6bcd-bbfd-4b2d-9b5d-ab8dfbbd4bed''))"
proof -
  let ?tmp = "tempFilename 1700000000000 ''1b9d6bcd-bbfd-4b2d-9b5d-ab8dfbbd4bed''"
  let ?st = "\<lparr>st_size = 12, st_birthtime = 1700000000000, st_mtime = 1700000000000\<rparr>"
  have ne: "''audio_5_ab.mp3'' \<noteq> ?tmp" by (simp add: tempFilename_def)
  have strip: "strip_data_url ''data:audio/wav;base64,UklGRnoGAABXQVZF'' = ''UklGRnoGAABXQVZF''"
    by (simp add: strip_data_url_def)
  have saved: "files (snd (saveAudioChunk example_env example_world
                  (JStr ''data:audio/wav;base64,UklGRnoGAABXQVZF'') ?tmp)) AudioDir
      = [(''audio_5_ab.mp3'', \<lparr>st_size = 2048, st_birthtime = 5, st_mtime = 6\<rparr>), (?tmp, ?st)]"
    using ne
    by (simp add: saveAudioChunk_written[OF example_env_fields(1)] write_file_def
          example_world_fields example_files_def strip example_env_clock)
  have listing: "fst (list_audio_files
          (snd (saveAudioChunk example_env example_world
                  (JStr ''data:audio/wav;base64,UklGRnoGAABXQVZF'') ?tmp)))
     = Listing [(?tmp, ?st), (''audio_5_ab.mp3'', \<lparr>st_size = 2048, st_birthtime = 5, st_mtime = 6\<rparr>)]"
    using ne
    by (simp add: list_audio_files_def Let_def readdirSync_def saved is_listed_tempFilename
          is_listed_example statSync_def newest_first_def)
  have there: "existsSync (files (snd (saveAudioChunk example_env example_world
                  (JStr ''data:audio/wav;base64,UklGRnoGAABXQVZF'') ?tmp))) (Path AudioDir ?tmp)"
    using ne by (simp add: existsSync_def saved)
  have download: "fst (get_audio_file
            (snd (saveAudioChunk example_env example_world
                    (JStr ''data:audio/wav;base64,UklGRnoGAABXQVZF'') ?tmp)) ?tmp)
     = Download [(''Content-Type'', ''audio/mpeg''),
                 (''Content-Disposition'',
                    ''attachment; filename='' @ [CHR 0x22] @ ?tmp @ [CHR 0x22])]
         (Path AudioDir ?tmp)"
    using there matches_example_temp
    by (simp add: get_audio_file_def Let_def log_fs_def)
  have staged: "existsSync
      (files (handleTranslation example_env
                (ws_send (transcription_message example_env example_transcribed example_chunk
                            (mock_text 2 3000)) example_transcribed)
                (JObj [(''text'', JStr (mock_text 2 3000)),
                       (''targetLanguage'', JStr ''en''),
                       (''sessionId'', JStr ''my-session-123'')])))
      (Path AudioDir (tempFilename (date_now example_env) (uuidv4 example_env)))"
    by (simp add: files_handleTranslation files_ws_send example_transcribed_staged)
  have job: "fs_log (handleAudioChunk example_env example_world example_chunk)
     = [WriteFile (Path AudioDir ?tmp),
        Ffmpeg (Path AudioDir ?tmp)
               (Path AudioDir (mp3Filename Streaming 1700000000000
                                 ''1b9d6bcd-bbfd-4b2d-9b5d-ab8dfbbd4bed'')),
        ExistsSync (Path AudioDir (mp3Filename Streaming 1700000000000
                                     ''1b9d6bcd-bbfd-4b2d-9b5d-ab8dfbbd4bed'')),
        StatSync (Path AudioDir (mp3Filename Streaming 1700000000000
                                   ''1b9d6bcd-bbfd-4b2d-9b5d-ab8dfbbd4bed'')),
        ExistsSync (Path AudioDir ?tmp),
        Unlink (Path AudioDir ?tmp)]"
  proof -
    have "fs_log (handleAudioChunk example_env example_world example_chunk)
       = fs_log example_transcribed
           @ [ExistsSync (Path AudioDir (tempFilename (date_now example_env) (uuidv4 example_env))),
              Unlink (Path AudioDir (tempFilename (date_now example_env) (uuidv4 example_env)))]"
      by (simp only: example_streaming_run fs_log_cleanup_existing[OF staged]
            fs_log_handleTranslation fs_log_ws_send)
    then show ?thesis by (simp add: example_transcribed_log example_env_clock)
  qed
  from job listing download show ?thesis by (intro conjI)
qed


section \<open>Placeholder transcription and listing\<close>

text \<open>
  C6, as amended. For an existing artifact the placeholder returns the template sentence
  selected by the random draw, annotated with the size in KB (rounded), after a timer of
  \<open>min(2000, 10 * KB)\<close> milliseconds; it reads the artifact's size and nothing else
  of it. For a fixed draw the text is a function of the size; the draw itself does not
  depend on the artifact.
\<close>

theorem placeholder_transcription:
  assumes "statSync (files w) audioFilePath = Some st"
  shows "transcribeAudio e w audioFilePath
           = (Inr (mock_text (random_index e) (st_size st)),
              w\<lparr>fs_log := fs_log w @ [ExistsSync audioFilePath, StatSync audioFilePath],
                timers := timers w @ [processingTime (st_size st)]\<rparr>)
         \<and> processingTime (st_size st) = min 2000 (10 * ((st_size st + 512) div 1024))
         \<and> processingTime (st_size st) \<le> 2000
         \<and> (random_index e < 5 \<longrightarrow>
               mock_text (random_index e) (st_size st)
                 = mockTranscriptions ! random_index e
                     @ '' (Archivo: '' @ digits ((st_size st + 512) div 1024) @ ''KB)''
               \<and> mockTranscriptions ! random_index e \<in> set mockTranscriptions)
         \<and> length mockTranscriptions = 5"
proof (intro conjI impI)
  show "transcribeAudio e w audioFilePath
           = (Inr (mock_text (random_index e) (st_size st)),
              w\<lparr>fs_log := fs_log w @ [ExistsSync audioFilePath, StatSync audioFilePath],
                timers := timers w @ [processingTime (st_size st)]\<rparr>)"
    using assms by (rule transcribeAudio_of_stat)
  show "processingTime (st_size st) = min 2000 (10 * ((st_size st + 512) div 1024))"
    by (simp add: processingTime_def fileSizeKB_def mult.commute)
  show "processingTime (st_size st) \<le> 2000" by (simp add: processingTime_def)
  show len: "length mockTranscriptions = 5" by (simp add: mockTranscriptions_def)
  assume i: "random_index e < 5"
  then show "mock_text (random_index e) (st_size st)
                 = mockTranscriptions ! random_index e
                     @ '' (Archivo: '' @ digits ((st_size st + 512) div 1024) @ ''KB)''"
    by (simp add: mock_text_def element_text_def len fileSizeKB_def)
  from i len show "mockTranscriptions ! random_index e \<in> set mockTranscriptions" by simp
qed

lemma example_stat:
  "statSync (files example_world) (Path AudioDir ''audio_5_ab.mp3'')
     = Some \<lparr>st_size = 2048, st_birthtime = 5, st_mtime = 6\<rparr>"
  by (simp add: statSync_def example_world_fields example_files_def)

text \<open>
  The hypotheses hold for the stored example artifact of 2048 bytes with the draw 2.
\<close>

theorem placeholder_transcription_witness:
  "statSync (files example_world) (Path AudioDir ''audio_5_ab.mp3'')
     = Some \<lparr>st_size = 2048, st_birthtime = 5, st_mtime = 6\<rparr>
   \<and> random_index example_env < 5
   \<and> fst (transcribeAudio example_env example_world (Path AudioDir ''audio_5_ab.mp3''))
       = Inr (mockTranscriptions ! 2 @ '' (Archivo: 2KB)'')
   \<and> timers (snd (transcribeAudio example_env example_world (Path AudioDir ''audio_5_ab.mp3'')))
       = [20]"
proof -
  have i: "random_index example_env < 5" by (simp add: example_env_fields)
  have d: "digits 2 = ''2''" by (simp add: digits.simps digit_char_def)
  have p: "processingTime 2048 = 20" by (simp add: processingTime_def fileSizeKB_def)
  from placeholder_transcription[OF example_stat, of example_env] i example_stat
  show ?thesis by (simp add: example_env_fields d p example_world_fields)
qed

text \<open>
  C6 as stated fails: two invocations on the same unchanged artifact with different random
  draws return different texts.
\<close>

theorem placeholder_random_draw_counterexample:
  "fst (transcribeAudio (example_env\<lparr>random_index := 0\<rparr>) example_world
          (Path AudioDir ''audio_5_ab.mp3''))
     = Inr (mockTranscriptions ! 0 @ '' (Archivo: 2KB)'')
   \<and> fst (transcribeAudio (example_env\<lparr>random_index := 3\<rparr>) example_world
          (Path AudioDir ''audio_5_ab.mp3''))
     = Inr (mockTranscriptions ! 3 @ '' (Archivo: 2KB)'')
   \<and> mockTranscriptions ! 0 @ '' (Archivo: 2KB)'' \<noteq> mockTranscriptions ! 3 @ '' (Archivo: 2KB)''"
proof -
  have d: "digits (fileSizeKB 2048) = ''2''" by (simp add: fileSizeKB_def digits.simps digit_char_def)
  have len: "length mockTranscriptions = 5" by (simp add: mockTranscriptions_def)
  have a: "fst (transcribeAudio (example_env\<lparr>random_index := 0\<rparr>) example_world
          (Path AudioDir ''audio_5_ab.mp3'')) = Inr (mockTranscriptions ! 0 @ '' (Archivo: 2KB)'')"
    by (simp add: transcribeAudio_of_stat[OF example_stat] mock_text_def element_text_def len d)
  have b: "fst (transcribeAudio (example_env\<lparr>random_index := 3\<rparr>) example_world
          (Path AudioDir ''audio_5_ab.mp3'')) = Inr (mockTranscriptions ! 3 @ '' (Archivo: 2KB)'')"
    by (simp add: transcribeAudio_of_stat[OF example_stat] mock_text_def element_text_def len d)
  have c: "mockTranscriptions ! 0 @ '' (Archivo: 2KB)'' \<noteq> mockTranscriptions ! 3 @ '' (Archivo: 2KB)''"
    by (simp add: mockTranscriptions_def)
  from a b c show ?thesis by (intro conjI)
qed

lemma stat_each_entries:
  assumes "\<And>n st. (n, st) \<in> set xs \<Longrightarrow> statSync fs (Path AudioDir n) = Some st"
  shows "stat_each fs (filter is_listed (map fst xs)) = Some (filter (\<lambda>x. is_listed (fst x)) xs)"
  using assms
proof (induction xs)
  case Nil
  then show ?case by simp
next
  case (Cons x xs)
  obtain n st where x: "x = (n, st)" by (cases x)
  have s: "statSync fs (Path AudioDir n) = Some st" using Cons.prems x by simp
  have ih: "stat_each fs (filter is_listed (map fst xs)) = Some (filter (\<lambda>x. is_listed (fst x)) xs)"
    using Cons by simp
  show ?case by (simp add: x s ih)
qed

lemma stat_each_directory:
  assumes "distinct (readdirSync fs AudioDir)"
  shows "stat_each fs (filter is_listed (readdirSync fs AudioDir))
           = Some (filter (\<lambda>x. is_listed (fst x)) (fs AudioDir))"
  unfolding readdirSync_def
proof (rule stat_each_entries)
  fix n st assume "(n, st) \<in> set (fs AudioDir)"
  with assms show "statSync fs (Path AudioDir n) = Some st"
    by (simp add: statSync_def readdirSync_def)
qed

lemma newest_first_sorted:
  "sorted_wrt (\<lambda>a b. st_birthtime (snd b) \<le> st_birthtime (snd a)) (newest_first xs)"
proof -
  have "sorted (map (\<lambda>x. - int (st_birthtime (snd x))) (newest_first xs))"
    unfolding newest_first_def by (rule sorted_sort_key)
  then show ?thesis by (simp add: sorted_map)
qed

text \<open>
  C7, as amended. For a directory with distinct entry names, the listing answers with the
  entries whose name ends in \<open>.mp3\<close> or in \<open>.wav\<close>, each with the name and the
  stats that give size, creation time and modification time, ordered newest first by
  creation time.
\<close>

theorem listing_newest_first:
  assumes "distinct (readdirSync (files w) AudioDir)"
  shows "\<exists>entries. fst (list_audio_files w) = Listing entries
           \<and> mset entries
               = mset (filter (\<lambda>x. endsWith (fst x) ''.mp3'' \<or> endsWith (fst x) ''.wav'')
                         (files w AudioDir))
           \<and> sorted_wrt (\<lambda>a b. st_birthtime (snd b) \<le> st_birthtime (snd a)) entries"
proof -
  let ?kept = "filter (\<lambda>x. is_listed (fst x)) (files w AudioDir)"
  have "fst (list_audio_files w) = Listing (newest_first ?kept)"
    by (simp add: list_audio_files_def Let_def stat_each_directory[OF assms])
  moreover have "mset (newest_first ?kept)
      = mset (filter (\<lambda>x. endsWith (fst x) ''.mp3'' \<or> endsWith (fst x) ''.wav'') (files w AudioDir))"
    by (simp add: newest_first_def is_listed_def)
  moreover note newest_first_sorted[of ?kept]
  ultimately show ?thesis by blast
qed

lemma staging_world_listing:
  "fst (list_audio_files staging_world)
     = Listing [(''temp_9_cd.wav'', \<lparr>st_size = 4096, st_birthtime = 9, st_mtime = 9\<rparr>),
                (''audio_5_ab.mp3'', \<lparr>st_size = 2048, st_birthtime = 5, st_mtime = 6\<rparr>)]"
  by (simp add: list_audio_files_def Let_def staging_world_def readdirSync_def is_listed_def
        endsWith_def statSync_def newest_first_def)

text \<open>
  C7 as stated fails: an entry with the suffix \<open>.wav\<close>, which is not the canonical
  artifact's suffix, is listed.
\<close>

theorem listing_includes_wav_counterexample:
  "fst (list_audio_files staging_world)
     = Listing [(''temp_9_cd.wav'', \<lparr>st_size = 4096, st_birthtime = 9, st_mtime = 9\<rparr>),
                (''audio_5_ab.mp3'', \<lparr>st_size = 2048, st_birthtime = 5, st_mtime = 6\<rparr>)]
   \<and> \<not> endsWith ''temp_9_cd.wav'' ''.mp3''"
  by (simp add: staging_world_listing) (simp add: endsWith_def)

text \<open>
  The hypothesis holds for a directory with an artifact, a staged payload and a text file.
\<close>

theorem listing_newest_first_witness:
  "distinct (readdirSync (files staging_world) AudioDir)
   \<and> fst (list_audio_files staging_world)
       = Listing [(''temp_9_cd.wav'', \<lparr>st_size = 4096, st_birthtime = 9, st_mtime = 9\<rparr>),
                  (''audio_5_ab.mp3'', \<lparr>st_size = 2048, st_birthtime = 5, st_mtime = 6\<rparr>)]
   \<and> sorted_wrt (\<lambda>a b. st_birthtime (snd b) \<le> st_birthtime (snd a))
         [(''temp_9_cd.wav'', \<lparr>st_size = 4096, st_birthtime = 9, st_mtime = 9\<rparr>),
          (''audio_5_ab.mp3'', \<lparr>st_size = 2048, st_birthtime = 5, st_mtime = 6\<rparr>)]"
proof -
  have d: "distinct (readdirSync (files staging_world) AudioDir)"
    by (simp add: staging_world_def readdirSync_def)
  from listing_newest_first[OF d] obtain entries where
    e: "fst (list_audio_files staging_world) = Listing entries"
    and s: "sorted_wrt (\<lambda>a b. st_birthtime (snd b) \<le> st_birthtime (snd a)) entries"
    by blast
  from e have "entries = [(''temp_9_cd.wav'', \<lparr>st_size = 4096, st_birthtime = 9, st_mtime = 9\<rparr>),
                  (''audio_5_ab.mp3'', \<lparr>st_size = 2048, st_birthtime = 5, st_mtime = 6\<rparr>)]"
    by (simp add: staging_world_listing)
  with d e s show ?thesis by simp
qed

end
